theory Spec2Isabelle
  imports Complex_Main "HOL-Library.Multiset"
begin

section \<open>JavaScript values used by the trial-balance code\<close>

text \<open>
  The amounts of \<^verbatim>\<open>server.js\<close> are JavaScript numbers, that is IEEE 754 doubles. The
  model keeps the kinds of value the code can meet in a numeric field: a finite double,
  written \<open>Num x\<close> with its exact rational value \<open>x\<close>, the two infinities, \<^verbatim>\<open>NaN\<close>
  (what \<^verbatim>\<open>parseFloat\<close> gives for text that is no number) and \<^verbatim>\<open>null\<close> (what \<^verbatim>\<open>NaN\<close>
  and the infinities become once a response has gone through \<^verbatim>\<open>res.json\<close> and
  \<^verbatim>\<open>response.json()\<close>). The two zeros are one value: the code has no division and no other
  operation that tells \<^verbatim>\<open>-0\<close> from \<^verbatim>\<open>0\<close>.
\<close>

datatype jsnum = Num rat | PInf | NInf | NaN | Null

subsection \<open>Rounding to the nearest double\<close>

text \<open>
  Every arithmetic operation and every conversion of a decimal literal returns the double
  nearest to the exact result, ties going to the even significand. The doubles around a
  positive \<open>x\<close> with \<open>2 ^ e \<le> x < 2 ^ (e + 1)\<close> are the multiples of \<open>2 ^ (e - 52)\<close>, where
  \<open>e\<close> is not taken below \<open>- 1022\<close> (the subnormal range); a result that reaches
  \<open>2 ^ 1024\<close> is an infinity.
\<close>

function bit_length :: "int \<Rightarrow> nat" where
  "bit_length n = (if n \<le> 0 then 0 else Suc (bit_length (n div 2)))"
  by pat_completeness auto
termination
  by (relation "measure nat") auto

definition pow2 :: "int \<Rightarrow> rat" where
  "pow2 e = (if 0 \<le> e then 2 ^ nat e else 1 / 2 ^ nat (- e))"

text \<open>For \<open>x > 0\<close>, the integer \<open>e\<close> with \<open>2 ^ e \<le> x < 2 ^ (e + 1)\<close>.\<close>

definition binary_exponent :: "rat \<Rightarrow> int" where
  "binary_exponent x =
     (if 1 \<le> x then int (bit_length \<lfloor>x\<rfloor>) - 1
      else (let k = bit_length \<lfloor>1 / x\<rfloor> - 1
            in if 1 / x = 2 ^ k then - int k else - int k - 1))"

definition round_half_even :: "rat \<Rightarrow> int" where
  "round_half_even q =
     (let f = \<lfloor>q\<rfloor>; r = q - of_int f
      in if r < 1 / 2 then f else if 1 / 2 < r then f + 1 else if even f then f else f + 1)"

text \<open>The spacing of the doubles around a positive \<open>x\<close>.\<close>

definition spacing :: "rat \<Rightarrow> rat" where
  "spacing x = pow2 (max (binary_exponent x) (- 1022) - 52)"

definition round_double :: "rat \<Rightarrow> jsnum" where
  "round_double x =
     (if x = 0 then Num 0
      else
        (let r = of_int (round_half_even (\<bar>x\<bar> / spacing \<bar>x\<bar>)) * spacing \<bar>x\<bar>
         in if pow2 1024 \<le> r then (if x < 0 then NInf else PInf)
            else Num (if x < 0 then - r else r)))"

text \<open>Every finite double is an integer multiple of \<open>2 ^ - 1074\<close>.\<close>

definition on_grid :: "rat \<Rightarrow> bool" where
  "on_grid x = (of_int \<lfloor>x * 2 ^ 1074\<rfloor> = x * 2 ^ 1074)"

subsection \<open>Operators\<close>

text \<open>\<^verbatim>\<open>ToNumber\<close>: \<^verbatim>\<open>null\<close> counts as 0 in arithmetic and in comparisons.\<close>

fun toNumber :: "jsnum \<Rightarrow> jsnum" where
  "toNumber Null = Num 0"
| "toNumber (Num x) = Num x"
| "toNumber PInf = PInf"
| "toNumber NInf = NInf"
| "toNumber NaN = NaN"

fun num_add :: "jsnum \<Rightarrow> jsnum \<Rightarrow> jsnum" where
  "num_add (Num x) (Num y) = round_double (x + y)"
| "num_add (Num x) PInf = PInf"
| "num_add (Num x) NInf = NInf"
| "num_add PInf (Num y) = PInf"
| "num_add PInf PInf = PInf"
| "num_add NInf (Num y) = NInf"
| "num_add NInf NInf = NInf"
| "num_add _ _ = NaN"

fun num_sub :: "jsnum \<Rightarrow> jsnum \<Rightarrow> jsnum" where
  "num_sub (Num x) (Num y) = round_double (x - y)"
| "num_sub (Num x) PInf = NInf"
| "num_sub (Num x) NInf = PInf"
| "num_sub PInf (Num y) = PInf"
| "num_sub PInf NInf = PInf"
| "num_sub NInf (Num y) = NInf"
| "num_sub NInf PInf = NInf"
| "num_sub _ _ = NaN"

fun num_lt :: "jsnum \<Rightarrow> jsnum \<Rightarrow> bool" where
  "num_lt (Num x) (Num y) = (x < y)"
| "num_lt (Num x) PInf = True"
| "num_lt NInf (Num y) = True"
| "num_lt NInf PInf = True"
| "num_lt _ _ = False"

fun num_le :: "jsnum \<Rightarrow> jsnum \<Rightarrow> bool" where
  "num_le (Num x) (Num y) = (x \<le> y)"
| "num_le (Num x) PInf = True"
| "num_le NInf (Num y) = True"
| "num_le NInf PInf = True"
| "num_le PInf PInf = True"
| "num_le NInf NInf = True"
| "num_le _ _ = False"

definition js_add :: "jsnum \<Rightarrow> jsnum \<Rightarrow> jsnum" where
  "js_add a b = num_add (toNumber a) (toNumber b)"

definition js_sub :: "jsnum \<Rightarrow> jsnum \<Rightarrow> jsnum" where
  "js_sub a b = num_sub (toNumber a) (toNumber b)"

definition js_lt :: "jsnum \<Rightarrow> jsnum \<Rightarrow> bool" where
  "js_lt a b = num_lt (toNumber a) (toNumber b)"

definition js_gt :: "jsnum \<Rightarrow> jsnum \<Rightarrow> bool" where
  "js_gt a b = num_lt (toNumber b) (toNumber a)"

definition js_ge :: "jsnum \<Rightarrow> jsnum \<Rightarrow> bool" where
  "js_ge a b = num_le (toNumber b) (toNumber a)"

text \<open>\<^verbatim>\<open>Math.abs\<close>.\<close>

definition js_abs :: "jsnum \<Rightarrow> jsnum" where
  "js_abs a = (case toNumber a of Num x \<Rightarrow> Num \<bar>x\<bar> | PInf \<Rightarrow> PInf | NInf \<Rightarrow> PInf | _ \<Rightarrow> NaN)"

text \<open>\<^verbatim>\<open>===\<close> converts nothing, and \<^verbatim>\<open>NaN\<close> equals nothing.\<close>

fun js_strict_eq :: "jsnum \<Rightarrow> jsnum \<Rightarrow> bool" where
  "js_strict_eq (Num x) (Num y) = (x = y)"
| "js_strict_eq PInf PInf = True"
| "js_strict_eq NInf NInf = True"
| "js_strict_eq Null Null = True"
| "js_strict_eq _ _ = False"

text \<open>The literal \<^verbatim>\<open>0.01\<close> of the source is the double nearest to one hundredth.\<close>

definition tolerance :: jsnum where
  "tolerance = round_double (1 / 100)"

subsection \<open>Strings\<close>

text \<open>
  A string is the list of the bytes of its UTF-8 encoding. \<^verbatim>\<open>toLowerCase\<close> is modelled
  on the ASCII letters (other characters are left as they are);
  \<^verbatim>\<open>String.prototype.includes\<close> is the search for a substring.
\<close>

definition lower_char :: "char \<Rightarrow> char" where
  "lower_char c =
     (case map_of (zip ''ABCDEFGHIJKLMNOPQRSTUVWXYZ'' ''abcdefghijklmnopqrstuvwxyz'') c of
        Some d \<Rightarrow> d
      | None \<Rightarrow> c)"

definition toLowerCase :: "string \<Rightarrow> string" where
  "toLowerCase s = map lower_char s"

fun starts_with :: "string \<Rightarrow> string \<Rightarrow> bool" where
  "starts_with s [] = True"
| "starts_with [] (d # ds) = False"
| "starts_with (c # cs) (d # ds) = (c = d \<and> starts_with cs ds)"

fun str_includes :: "string \<Rightarrow> string \<Rightarrow> bool" where
  "str_includes [] t = (t = [])"
| "str_includes (c # cs) t = (starts_with (c # cs) t \<or> str_includes cs t)"

subsection \<open>parseFloat\<close>

text \<open>
  \<^verbatim>\<open>parseFloat\<close> skips leading white space and line terminators and reads the longest
  prefix that is a decimal literal: an optional sign, then either \<^verbatim>\<open>Infinity\<close> or digits
  with an optional fraction (or a fraction alone) and an exponent when at least one digit
  follows the \<^verbatim>\<open>e\<close>. Whatever follows the literal is ignored; when there is no literal the
  result is \<^verbatim>\<open>NaN\<close>. The value of the literal is rounded to the nearest double.
\<close>

definition is_digit :: "char \<Rightarrow> bool" where
  "is_digit c = (c \<in> set ''0123456789'')"

text \<open>
  The white space and line terminators of ECMAScript, in UTF-8: the ASCII ones, U+00A0,
  U+1680, U+2000 to U+200A, U+2028, U+2029, U+202F, U+205F, U+3000 and U+FEFF.
\<close>

definition space_prefixes :: "string list" where
  "space_prefixes =
     [[CHR 0x20], [CHR 0x09], [CHR 0x0A], [CHR 0x0B], [CHR 0x0C], [CHR 0x0D],
      [CHR 0xC2, CHR 0xA0], [CHR 0xE1, CHR 0x9A, CHR 0x80],
      [CHR 0xE2, CHR 0x80, CHR 0x80], [CHR 0xE2, CHR 0x80, CHR 0x81],
      [CHR 0xE2, CHR 0x80, CHR 0x82], [CHR 0xE2, CHR 0x80, CHR 0x83],
      [CHR 0xE2, CHR 0x80, CHR 0x84], [CHR 0xE2, CHR 0x80, CHR 0x85],
      [CHR 0xE2, CHR 0x80, CHR 0x86], [CHR 0xE2, CHR 0x80, CHR 0x87],
      [CHR 0xE2, CHR 0x80, CHR 0x88], [CHR 0xE2, CHR 0x80, CHR 0x89],
      [CHR 0xE2, CHR 0x80, CHR 0x8A], [CHR 0xE2, CHR 0x80, CHR 0xA8],
      [CHR 0xE2, CHR 0x80, CHR 0xA9], [CHR 0xE2, CHR 0x80, CHR 0xAF],
      [CHR 0xE2, CHR 0x81, CHR 0x9F], [CHR 0xE3, CHR 0x80, CHR 0x80],
      [CHR 0xEF, CHR 0xBB, CHR 0xBF]]"

text \<open>Dropping leading white space; the first argument bounds the number of steps.\<close>

fun skip_space :: "nat \<Rightarrow> string \<Rightarrow> string" where
  "skip_space 0 s = s"
| "skip_space (Suc n) s =
     (case find (starts_with s) space_prefixes of
        Some p \<Rightarrow> skip_space n (drop (length p) s)
      | None \<Rightarrow> s)"

definition digit_val :: "char \<Rightarrow> nat" where
  "digit_val c =
     (case map_of (zip ''0123456789'' [0, 1, 2, 3, 4, 5, 6, 7, 8, 9]) c of
        Some d \<Rightarrow> d
      | None \<Rightarrow> 0)"

definition digits_val :: "string \<Rightarrow> int" where
  "digits_val ds = foldl (\<lambda>n c. 10 * n + int (digit_val c)) 0 ds"

fun read_sign :: "string \<Rightarrow> rat \<times> string" where
  "read_sign (c # cs) =
     (if c = CHR ''-'' then (- 1, cs) else if c = CHR ''+'' then (1, cs) else (1, c # cs))"
| "read_sign [] = (1, [])"

fun read_fraction :: "string \<Rightarrow> string \<times> string" where
  "read_fraction (c # cs) =
     (if c = CHR ''.'' then (takeWhile is_digit cs, dropWhile is_digit cs) else ([], c # cs))"
| "read_fraction [] = ([], [])"

fun read_exponent :: "string \<Rightarrow> rat" where
  "read_exponent (c # cs) =
     (if c = CHR ''e'' \<or> c = CHR ''E'' then
        (let (sg, rest) = read_sign cs; ds = takeWhile is_digit rest
         in if ds = [] then 1
            else if sg < 0 then 1 / 10 ^ nat (digits_val ds) else 10 ^ nat (digits_val ds))
      else 1)"
| "read_exponent [] = 1"

definition parseFloat :: "string \<Rightarrow> jsnum" where
  "parseFloat s =
     (let (sg, s1) = read_sign (skip_space (length s) s);
          ip = takeWhile is_digit s1;
          (fp, s2) = read_fraction (dropWhile is_digit s1)
      in if starts_with s1 ''Infinity'' then (if sg < 0 then NInf else PInf)
         else if ip = [] \<and> fp = [] then NaN
         else round_double
                (sg * (of_int (digits_val ip) + of_int (digits_val fp) / 10 ^ length fp)
                   * read_exponent s2))"

section \<open>The report rows and the trial balance\<close>

text \<open>
  A report of the accounting API is a list of sections; a section has a row type, a
  title and rows; a row has a row type and cells. A cell is modelled by its
  \<^verbatim>\<open>value\<close>: \<open>None\<close> when the cell or its value is missing.
\<close>

datatype row_type = Header | Section | Row | SummaryRow

type_synonym cell = "string option"

record report_row =
  row_rowType :: row_type
  row_cells :: "cell list option"

record report_section =
  sec_rowType :: row_type
  sec_title :: "string option"
  sec_rows :: "report_row list option"

record accountInfo =
  acc_name :: string
  acc_balance :: jsnum
  acc_debit :: jsnum
  acc_credit :: jsnum
  acc_section :: string

record Totals =
  totalDebits :: jsnum
  totalCredits :: jsnum
  totalAssets :: jsnum
  totalLiabilities :: jsnum
  totalEquity :: jsnum
  totalRevenue :: jsnum
  totalExpenses :: jsnum

record TrialBalance =
  assets :: "accountInfo list"
  liabilities :: "accountInfo list"
  equity :: "accountInfo list"
  revenue :: "accountInfo list"
  expenses :: "accountInfo list"
  totals :: Totals

record tb_state =
  trialBalance :: TrialBalance
  processedAccounts :: nat

definition zero_totals :: Totals where
  "zero_totals = \<lparr>totalDebits = Num 0, totalCredits = Num 0, totalAssets = Num 0,
     totalLiabilities = Num 0, totalEquity = Num 0, totalRevenue = Num 0,
     totalExpenses = Num 0\<rparr>"

definition init_state :: tb_state where
  "init_state = \<lparr>trialBalance = \<lparr>assets = [], liabilities = [], equity = [], revenue = [],
     expenses = [], totals = zero_totals\<rparr>, processedAccounts = 0\<rparr>"

text \<open>\<^verbatim>\<open>row.cells[0]?.value || ""\<close> and \<^verbatim>\<open>parseFloat(row.cells[1]?.value || 0)\<close>.\<close>

definition cell_name :: "cell \<Rightarrow> string" where
  "cell_name c = (case c of Some s \<Rightarrow> s | None \<Rightarrow> [])"

definition cell_amount :: "cell \<Rightarrow> jsnum" where
  "cell_amount c = (case c of Some s \<Rightarrow> if s = [] then Num 0 else parseFloat s | None \<Rightarrow> Num 0)"

text \<open>The guard \<^verbatim>\<open>row.rowType === "Row" && row.cells && row.cells.length >= 2\<close>.\<close>

definition row_guard :: "report_row \<Rightarrow> bool" where
  "row_guard r = (row_rowType r = Row \<and>
     (case row_cells r of Some cs \<Rightarrow> 2 \<le> length cs | None \<Rightarrow> False))"

definition row_name :: "report_row \<Rightarrow> string" where
  "row_name r = (case row_cells r of Some (c0 # cs) \<Rightarrow> cell_name c0 | _ \<Rightarrow> [])"

definition row_amount :: "report_row \<Rightarrow> jsnum" where
  "row_amount r = (case row_cells r of Some (c0 # c1 # cs) \<Rightarrow> cell_amount c1 | _ \<Rightarrow> Num 0)"

text \<open>The skip test of both row loops.\<close>

definition row_skipped :: "report_row \<Rightarrow> bool" where
  "row_skipped r = (str_includes (toLowerCase (row_name r)) ''total'' \<or>
     js_strict_eq (row_amount r) (Num 0))"

definition add_debit_credit :: "accountInfo \<Rightarrow> Totals \<Rightarrow> Totals" where
  "add_debit_credit a t = t\<lparr>totalDebits := js_add (totalDebits t) (acc_debit a),
     totalCredits := js_add (totalCredits t) (acc_credit a)\<rparr>"

text \<open>The body of the balance-sheet row loop, for one row of a section with the given title.\<close>

definition bs_row :: "string \<Rightarrow> tb_state \<Rightarrow> report_row \<Rightarrow> tb_state" where
  "bs_row title st r =
     (if row_guard r then
        (if row_skipped r then st
         else
           (let currentBalance = row_amount r;
                sectionTitle = toLowerCase title;
                tb = trialBalance st;
                info = \<lparr>acc_name = row_name r, acc_balance = currentBalance,
                  acc_debit = Num 0, acc_credit = Num 0, acc_section = title\<rparr>;
                pos = (if js_ge currentBalance (Num 0) then currentBalance else Num 0);
                neg = (if js_lt currentBalance (Num 0) then js_abs currentBalance else Num 0);
                (info', tb') =
                  (if str_includes sectionTitle ''bank'' \<or> str_includes sectionTitle ''asset'' then
                     (let i = info\<lparr>acc_debit := pos, acc_credit := neg\<rparr>
                      in (i, tb\<lparr>assets := assets tb @ [i],
                            totals := (totals tb)\<lparr>totalAssets :=
                              js_add (totalAssets (totals tb)) currentBalance\<rparr>\<rparr>))
                   else if str_includes sectionTitle ''liabilit'' then
                     (let i = info\<lparr>acc_credit := pos, acc_debit := neg\<rparr>
                      in (i, tb\<lparr>liabilities := liabilities tb @ [i],
                            totals := (totals tb)\<lparr>totalLiabilities :=
                              js_add (totalLiabilities (totals tb)) currentBalance\<rparr>\<rparr>))
                   else if str_includes sectionTitle ''equity'' then
                     (let i = info\<lparr>acc_credit := pos, acc_debit := neg\<rparr>
                      in (i, tb\<lparr>equity := equity tb @ [i],
                            totals := (totals tb)\<lparr>totalEquity :=
                              js_add (totalEquity (totals tb)) currentBalance\<rparr>\<rparr>))
                   else (info, tb))
            in \<lparr>trialBalance = tb'\<lparr>totals := add_debit_credit info' (totals tb')\<rparr>,
                 processedAccounts = processedAccounts st + 1\<rparr>))
      else st)"

text \<open>The body of the profit-and-loss row loop.\<close>

definition pl_row :: "string \<Rightarrow> tb_state \<Rightarrow> report_row \<Rightarrow> tb_state" where
  "pl_row title st r =
     (if row_guard r then
        (if row_skipped r then st
         else
           (let currentAmount = row_amount r;
                sectionTitle = toLowerCase title;
                tb = trialBalance st;
                info = \<lparr>acc_name = row_name r, acc_balance = currentAmount,
                  acc_debit = Num 0, acc_credit = Num 0, acc_section = title\<rparr>;
                (info', tb') =
                  (if str_includes sectionTitle ''income'' \<or> str_includes sectionTitle ''revenue'' then
                     (let i = info\<lparr>acc_credit := js_abs currentAmount\<rparr>
                      in (i, tb\<lparr>revenue := revenue tb @ [i],
                            totals := (totals tb)\<lparr>totalRevenue :=
                              js_add (totalRevenue (totals tb)) (js_abs currentAmount)\<rparr>\<rparr>))
                   else if str_includes sectionTitle ''expense'' \<or> str_includes sectionTitle ''cost'' then
                     (let i = info\<lparr>acc_debit := js_abs currentAmount\<rparr>
                      in (i, tb\<lparr>expenses := expenses tb @ [i],
                            totals := (totals tb)\<lparr>totalExpenses :=
                              js_add (totalExpenses (totals tb)) (js_abs currentAmount)\<rparr>\<rparr>))
                   else (info, tb))
            in \<lparr>trialBalance = tb'\<lparr>totals := add_debit_credit info' (totals tb')\<rparr>,
                 processedAccounts = processedAccounts st + 1\<rparr>))
      else st)"

text \<open>The guard \<^verbatim>\<open>section.rowType === "Section" && section.rows && section.title\<close>: an
  empty title is falsy, an empty list of rows is not.\<close>

definition section_guard :: "report_section \<Rightarrow> bool" where
  "section_guard s = (sec_rowType s = Section \<and> sec_rows s \<noteq> None \<and>
     (case sec_title s of Some t \<Rightarrow> t \<noteq> [] | None \<Rightarrow> False))"

definition process_section ::
  "(string \<Rightarrow> tb_state \<Rightarrow> report_row \<Rightarrow> tb_state) \<Rightarrow> tb_state \<Rightarrow> report_section \<Rightarrow> tb_state" where
  "process_section row_step st s =
     (if section_guard s then
        (case (sec_title s, sec_rows s) of
           (Some title, Some rs) \<Rightarrow> foldl (row_step title) st rs
         | _ \<Rightarrow> st)
      else st)"

definition process_balance_sheet :: "tb_state \<Rightarrow> report_section list \<Rightarrow> tb_state" where
  "process_balance_sheet st secs = foldl (process_section bs_row) st secs"

definition process_profit_loss :: "tb_state \<Rightarrow> report_section list \<Rightarrow> tb_state" where
  "process_profit_loss st secs = foldl (process_section pl_row) st secs"

section \<open>Building the trial balance of one entity\<close>

text \<open>
  \<^verbatim>\<open>Array.prototype.sort\<close> is stable. The model is the stable insertion sort, with
  \<open>gt a b\<close> standing for "the comparator returns a positive number on \<open>a\<close> and \<open>b\<close>";
  for a consistent comparator every stable sort returns the same list.
\<close>

fun insert_by :: "('a \<Rightarrow> 'a \<Rightarrow> bool) \<Rightarrow> 'a \<Rightarrow> 'a list \<Rightarrow> 'a list" where
  "insert_by gt x [] = [x]"
| "insert_by gt x (y # ys) = (if gt x y then y # insert_by gt x ys else x # y # ys)"

fun js_sort :: "('a \<Rightarrow> 'a \<Rightarrow> bool) \<Rightarrow> 'a list \<Rightarrow> 'a list" where
  "js_sort gt [] = []"
| "js_sort gt (x # xs) = insert_by gt x (js_sort gt xs)"

text \<open>
  The comparator \<^verbatim>\<open>(a, b) => a.name.localeCompare(b.name)\<close>; the collation
  \<open>localeCompare\<close> of the host is a parameter of the model.
\<close>

definition by_name :: "(string \<Rightarrow> string \<Rightarrow> int) \<Rightarrow> accountInfo \<Rightarrow> accountInfo \<Rightarrow> bool" where
  "by_name localeCompare a b = (0 < localeCompare (acc_name a) (acc_name b))"

definition sort_categories :: "(string \<Rightarrow> string \<Rightarrow> int) \<Rightarrow> TrialBalance \<Rightarrow> TrialBalance" where
  "sort_categories localeCompare tb =
     tb\<lparr>assets := js_sort (by_name localeCompare) (assets tb),
        liabilities := js_sort (by_name localeCompare) (liabilities tb),
        equity := js_sort (by_name localeCompare) (equity tb),
        revenue := js_sort (by_name localeCompare) (revenue tb),
        expenses := js_sort (by_name localeCompare) (expenses tb)\<rparr>"

record AccountingEquation =
  eq_assets :: jsnum
  eq_liabilitiesAndEquity :: jsnum
  eq_balanced :: bool

record BalanceCheck =
  debitsEqualCredits :: bool
  difference :: jsnum
  accountingEquation :: AccountingEquation

definition balance_check :: "Totals \<Rightarrow> BalanceCheck" where
  "balance_check t =
     \<lparr>debitsEqualCredits =
        js_lt (js_abs (js_sub (totalDebits t) (totalCredits t))) tolerance,
      difference = js_sub (totalDebits t) (totalCredits t),
      accountingEquation =
        \<lparr>eq_assets = totalAssets t,
         eq_liabilitiesAndEquity = js_add (totalLiabilities t) (totalEquity t),
         eq_balanced =
           js_lt (js_abs (js_sub (totalAssets t)
                    (js_add (totalLiabilities t) (totalEquity t)))) tolerance\<rparr>\<rparr>"

text \<open>
  A call of the accounting API either throws (with a message) or returns a report, whose
  rows are read as \<^verbatim>\<open>response.body.reports?.[0]?.rows || []\<close>.
\<close>

datatype 'a fetched = Failed string | Fetched 'a

definition rows_or_empty :: "report_section list option \<Rightarrow> report_section list" where
  "rows_or_empty rs = (case rs of Some secs \<Rightarrow> secs | None \<Rightarrow> [])"

text \<open>
  The methods of the \<^verbatim>\<open>console\<close> object of Node.js. Calling a property that the object
  does not have throws a \<^verbatim>\<open>TypeError\<close>.
\<close>

definition console_methods :: "string list" where
  "console_methods = [''assert'', ''clear'', ''count'', ''countReset'', ''debug'', ''dir'',
     ''dirxml'', ''error'', ''group'', ''groupCollapsed'', ''groupEnd'', ''info'', ''log'',
     ''table'', ''time'', ''timeEnd'', ''timeLog'', ''trace'', ''warn'', ''profile'',
     ''profileEnd'', ''timeStamp'']"

definition console_call :: "string \<Rightarrow> string + unit" where
  "console_call m =
     (if m \<in> set console_methods then Inr ()
      else Inl (''console.'' @ m @ '' is not a function''))"

record built =
  built_trialBalance :: TrialBalance
  built_balanceCheck :: BalanceCheck
  built_processedAccounts :: nat

text \<open>
  The inner \<^verbatim>\<open>try\<close> around the profit-and-loss report: when the fetch throws, the handler
  of the \<^verbatim>\<open>catch\<close> calls \<^verbatim>\<open>console.errorlog\<close>, and what that call throws leaves the block.
\<close>

definition profit_loss_block :: "tb_state \<Rightarrow> report_section list option fetched \<Rightarrow> string + tb_state" where
  "profit_loss_block st pl =
     (case pl of
        Fetched rs \<Rightarrow> Inr (process_profit_loss st (rows_or_empty rs))
      | Failed plError \<Rightarrow>
          (case console_call ''errorlog'' of Inl e \<Rightarrow> Inl e | Inr u \<Rightarrow> Inr st))"

text \<open>
  The body of the outer \<^verbatim>\<open>try\<close> of \<^verbatim>\<open>GET /api/trial-balance/:tenantId\<close>, from the fetch
  of the balance sheet on: \<open>Inl\<close> carries the message of the error that reaches the outer
  \<^verbatim>\<open>catch\<close>.
\<close>

definition buildTrialBalance ::
  "(string \<Rightarrow> string \<Rightarrow> int) \<Rightarrow> report_section list option fetched \<Rightarrow>
   report_section list option fetched \<Rightarrow> string + built" where
  "buildTrialBalance localeCompare bs pl =
     (case bs of
        Failed e \<Rightarrow> Inl e
      | Fetched rs \<Rightarrow>
          (case profit_loss_block (process_balance_sheet init_state (rows_or_empty rs)) pl of
             Inl e \<Rightarrow> Inl e
           | Inr st \<Rightarrow>
               Inr \<lparr>built_trialBalance = sort_categories localeCompare (trialBalance st),
                    built_balanceCheck = balance_check (totals (trialBalance st)),
                    built_processedAccounts = processedAccounts st\<rparr>))"

section \<open>The HTTP responses of the trial-balance endpoint\<close>

text \<open>
  \<^verbatim>\<open>GET /api/trial-balance/:tenantId\<close> answers 404 when the tenant has no live token,
  500 when the outer \<^verbatim>\<open>catch\<close> is reached, and otherwise 200 with the trial balance. The
  body goes through JSON, which writes \<^verbatim>\<open>NaN\<close> and the infinities as \<^verbatim>\<open>null\<close>. (The time stamp
  \<^verbatim>\<open>generatedAt\<close> of the body is left out.)
\<close>

record tokenData =
  tok_tenantId :: string
  tok_tenantName :: string

record tb_body =
  body_tenantId :: string
  body_tenantName :: string
  body_trialBalance :: TrialBalance
  body_balanceCheck :: BalanceCheck
  body_reportDate :: string
  body_processedAccounts :: nat

datatype tb_reply = Reply200 tb_body | ReplyError nat string

fun json_num :: "jsnum \<Rightarrow> jsnum" where
  "json_num NaN = Null"
| "json_num PInf = Null"
| "json_num NInf = Null"
| "json_num (Num x) = Num x"
| "json_num Null = Null"

definition json_account :: "accountInfo \<Rightarrow> accountInfo" where
  "json_account a = a\<lparr>acc_balance := json_num (acc_balance a),
     acc_debit := json_num (acc_debit a), acc_credit := json_num (acc_credit a)\<rparr>"

definition json_totals :: "Totals \<Rightarrow> Totals" where
  "json_totals t = \<lparr>totalDebits = json_num (totalDebits t),
     totalCredits = json_num (totalCredits t), totalAssets = json_num (totalAssets t),
     totalLiabilities = json_num (totalLiabilities t), totalEquity = json_num (totalEquity t),
     totalRevenue = json_num (totalRevenue t), totalExpenses = json_num (totalExpenses t)\<rparr>"

definition json_trialBalance :: "TrialBalance \<Rightarrow> TrialBalance" where
  "json_trialBalance tb = \<lparr>assets = map json_account (assets tb),
     liabilities = map json_account (liabilities tb), equity = map json_account (equity tb),
     revenue = map json_account (revenue tb), expenses = map json_account (expenses tb),
     totals = json_totals (totals tb)\<rparr>"

definition json_balanceCheck :: "BalanceCheck \<Rightarrow> BalanceCheck" where
  "json_balanceCheck c = \<lparr>debitsEqualCredits = debitsEqualCredits c,
     difference = json_num (difference c),
     accountingEquation = \<lparr>eq_assets = json_num (eq_assets (accountingEquation c)),
       eq_liabilitiesAndEquity = json_num (eq_liabilitiesAndEquity (accountingEquation c)),
       eq_balanced = eq_balanced (accountingEquation c)\<rparr>\<rparr>"

text \<open>\<^verbatim>\<open>req.query.date || new Date().toISOString().split("T")[0]\<close>.\<close>

definition date_or_today :: "string option \<Rightarrow> string \<Rightarrow> string" where
  "date_or_today d today = (case d of Some s \<Rightarrow> if s = [] then today else s | None \<Rightarrow> today)"

definition trial_balance_endpoint ::
  "(string \<Rightarrow> string \<Rightarrow> int) \<Rightarrow> tokenData option \<Rightarrow> string \<Rightarrow> string \<Rightarrow>
   report_section list option fetched \<Rightarrow> report_section list option fetched \<Rightarrow> tb_reply" where
  "trial_balance_endpoint localeCompare tok tenantId reportDate bs pl =
     (case tok of
        None \<Rightarrow> ReplyError 404 ''Tenant not found or token expired''
      | Some t \<Rightarrow>
          (case buildTrialBalance localeCompare bs pl of
             Inl e \<Rightarrow> ReplyError 500 ''Failed to get trial balance''
           | Inr b \<Rightarrow>
               Reply200 \<lparr>body_tenantId = tenantId, body_tenantName = tok_tenantName t,
                 body_trialBalance = json_trialBalance (built_trialBalance b),
                 body_balanceCheck = json_balanceCheck (built_balanceCheck b),
                 body_reportDate = reportDate,
                 body_processedAccounts = built_processedAccounts b\<rparr>))"

section \<open>The consolidated trial balance\<close>

text \<open>
  \<^verbatim>\<open>tokenStorage.getAllXeroConnections\<close>: one connection for each stored token of the
  provider, \<open>connected\<close> when the token has not expired at the time \<open>now\<close>; the empty
  list when the query throws.
\<close>

record token_row =
  tenant_id :: string
  tenant_name :: string
  expires_at :: int

record connection =
  conn_tenantId :: string
  conn_tenantName :: string
  conn_connected :: bool
  conn_error :: "string option"

definition getAllXeroConnections :: "int \<Rightarrow> token_row list fetched \<Rightarrow> connection list" where
  "getAllXeroConnections now result =
     (case result of
        Fetched rows \<Rightarrow>
          map (\<lambda>row. \<lparr>conn_tenantId = tenant_id row, conn_tenantName = tenant_name row,
                 conn_connected = (now < expires_at row),
                 conn_error = (if now > expires_at row then Some ''Token expired'' else None)\<rparr>) rows
      | Failed e \<Rightarrow> [])"

record section_view =
  sv_title :: string
  sv_total :: jsnum
  sv_accounts :: "accountInfo list"

record company_sections =
  cs_assets :: section_view
  cs_liabilities :: section_view
  cs_equity :: section_view
  cs_revenue :: section_view
  cs_expenses :: section_view

record accountCounts =
  totalAccounts :: nat
  assetAccounts :: nat
  liabilityAccounts :: nat
  equityAccounts :: nat
  revenueAccounts :: nat
  expenseAccounts :: nat

record companyData =
  comp_tenantId :: string
  comp_tenantName :: string
  comp_balanceCheck :: BalanceCheck
  comp_totals :: Totals
  comp_reportDate :: string
  comp_sections :: company_sections
  comp_accountCounts :: accountCounts

text \<open>\<^verbatim>\<open>section: account.section || "Assets"\<close> and its four siblings.\<close>

definition view_accounts :: "string \<Rightarrow> accountInfo list \<Rightarrow> accountInfo list" where
  "view_accounts dflt accs =
     map (\<lambda>account. account\<lparr>acc_section :=
            (if acc_section account = [] then dflt else acc_section account)\<rparr>) accs"

definition make_companyData :: "connection \<Rightarrow> tb_body \<Rightarrow> companyData" where
  "make_companyData conn entityTrialBalance =
     (let tb = body_trialBalance entityTrialBalance in
      \<lparr>comp_tenantId = conn_tenantId conn,
       comp_tenantName = conn_tenantName conn,
       comp_balanceCheck = body_balanceCheck entityTrialBalance,
       comp_totals = totals tb,
       comp_reportDate = body_reportDate entityTrialBalance,
       comp_sections =
         \<lparr>cs_assets = \<lparr>sv_title = ''Assets'', sv_total = totalAssets (totals tb),
            sv_accounts = view_accounts ''Assets'' (assets tb)\<rparr>,
          cs_liabilities = \<lparr>sv_title = ''Liabilities'', sv_total = totalLiabilities (totals tb),
            sv_accounts = view_accounts ''Liabilities'' (liabilities tb)\<rparr>,
          cs_equity = \<lparr>sv_title = ''Equity'', sv_total = totalEquity (totals tb),
            sv_accounts = view_accounts ''Equity'' (equity tb)\<rparr>,
          cs_revenue = \<lparr>sv_title = ''Revenue'', sv_total = totalRevenue (totals tb),
            sv_accounts = view_accounts ''Revenue'' (revenue tb)\<rparr>,
          cs_expenses = \<lparr>sv_title = ''Expenses'', sv_total = totalExpenses (totals tb),
            sv_accounts = view_accounts ''Expenses'' (expenses tb)\<rparr>\<rparr>,
       comp_accountCounts =
         \<lparr>totalAccounts = length (assets tb) + length (liabilities tb) + length (equity tb)
            + length (revenue tb) + length (expenses tb),
          assetAccounts = length (assets tb),
          liabilityAccounts = length (liabilities tb),
          equityAccounts = length (equity tb),
          revenueAccounts = length (revenue tb),
          expenseAccounts = length (expenses tb)\<rparr>\<rparr>)"

definition add_entity_totals :: "Totals \<Rightarrow> Totals \<Rightarrow> Totals" where
  "add_entity_totals t entityTotals =
     \<lparr>totalDebits = js_add (totalDebits t) (totalDebits entityTotals),
      totalCredits = js_add (totalCredits t) (totalCredits entityTotals),
      totalAssets = js_add (totalAssets t) (totalAssets entityTotals),
      totalLiabilities = js_add (totalLiabilities t) (totalLiabilities entityTotals),
      totalEquity = js_add (totalEquity t) (totalEquity entityTotals),
      totalRevenue = js_add (totalRevenue t) (totalRevenue entityTotals),
      totalExpenses = js_add (totalExpenses t) (totalExpenses entityTotals)\<rparr>"

record hierarchical =
  consolidated_totals :: Totals
  companies :: "companyData list"

text \<open>
  One turn of the loop over the connected entities. \<open>fetchTB tenantId date\<close> is the
  request to the trial-balance endpoint: it is rejected (\<open>Failed\<close>, which the
  \<^verbatim>\<open>catch\<close> of the loop body logs) or resolves to a reply, which is used only when it is
  \<^verbatim>\<open>ok\<close>.
\<close>

definition entity_step ::
  "(string \<Rightarrow> string \<Rightarrow> tb_reply fetched) \<Rightarrow> string \<Rightarrow> hierarchical \<Rightarrow> connection \<Rightarrow> hierarchical" where
  "entity_step fetchTB reportDate h conn =
     (case fetchTB (conn_tenantId conn) reportDate of
        Failed e \<Rightarrow> h
      | Fetched (ReplyError status msg) \<Rightarrow> h
      | Fetched (Reply200 entityTrialBalance) \<Rightarrow>
          \<lparr>consolidated_totals = add_entity_totals (consolidated_totals h)
             (totals (body_trialBalance entityTrialBalance)),
           companies = companies h @ [make_companyData conn entityTrialBalance]\<rparr>)"

record dataQuality =
  allConnected :: bool
  allBalanced :: bool
  consolidatedBalanced :: bool

record summary =
  totalCompanies :: nat
  sum_totalAccounts :: nat
  balancedCompanies :: nat
  sum_dataQuality :: dataQuality

record consolidatedTrialBalance =
  ctb_totals :: Totals
  ctb_balanceCheck :: BalanceCheck
  ctb_companies :: "companyData list"
  ctb_reportDate :: string
  ctb_summary :: summary

definition buildConsolidatedTrialBalance ::
  "int \<Rightarrow> token_row list fetched \<Rightarrow> string \<Rightarrow> (string \<Rightarrow> string \<Rightarrow> tb_reply fetched) \<Rightarrow>
   consolidatedTrialBalance" where
  "buildConsolidatedTrialBalance now stored reportDate fetchTB =
     (let xeroConnections = getAllXeroConnections now stored;
          connectedXeroEntities = filter conn_connected xeroConnections;
          h = foldl (entity_step fetchTB reportDate)
                \<lparr>consolidated_totals = zero_totals, companies = []\<rparr> connectedXeroEntities;
          balanceCheck = balance_check (consolidated_totals h)
      in \<lparr>ctb_totals = consolidated_totals h,
          ctb_balanceCheck = balanceCheck,
          ctb_companies = companies h,
          ctb_reportDate = reportDate,
          ctb_summary =
            \<lparr>totalCompanies = length (companies h),
             sum_totalAccounts =
               foldl (\<lambda>sum company. sum + totalAccounts (comp_accountCounts company)) 0 (companies h),
             balancedCompanies =
               length (filter (\<lambda>company. debitsEqualCredits (comp_balanceCheck company)) (companies h)),
             sum_dataQuality =
               \<lparr>allConnected = (length (companies h) = length connectedXeroEntities),
                allBalanced =
                  list_all (\<lambda>company. debitsEqualCredits (comp_balanceCheck company)) (companies h),
                consolidatedBalanced = debitsEqualCredits balanceCheck\<rparr>\<rparr>\<rparr>)"

section \<open>Comparing two periods\<close>

record period_summary =
  ps_totalAssets :: jsnum
  ps_totalLiabilities :: jsnum
  ps_totalEquity :: jsnum
  ps_totalDebits :: jsnum
  ps_totalCredits :: jsnum
  ps_balanced :: bool

record period_changes =
  assetsChange :: jsnum
  liabilitiesChange :: jsnum
  equityChange :: jsnum
  balanceStatusChange :: bool

datatype changeType = INCREASE | DECREASE | NEW_ACCOUNT

record accountChange =
  accountName :: string
  fromBalance :: jsnum
  toBalance :: jsnum
  change :: jsnum
  changeType :: changeType

record comparison =
  cmp_tenantId :: string
  cmp_tenantName :: string
  cmp_fromDate :: string
  cmp_toDate :: string
  fromPeriod :: period_summary
  toPeriod :: period_summary
  changes :: period_changes
  accountChanges :: "accountChange list"
  significantChanges :: "accountChange list"

datatype compare_reply = Compare200 comparison | CompareError nat string

record compare_query =
  q_fromDate :: "string option"
  q_toDate :: "string option"
  q_accountFilter :: "string option"

definition summary_of :: "tb_body \<Rightarrow> period_summary" where
  "summary_of d =
     \<lparr>ps_totalAssets = totalAssets (totals (body_trialBalance d)),
      ps_totalLiabilities = totalLiabilities (totals (body_trialBalance d)),
      ps_totalEquity = totalEquity (totals (body_trialBalance d)),
      ps_totalDebits = totalDebits (totals (body_trialBalance d)),
      ps_totalCredits = totalCredits (totals (body_trialBalance d)),
      ps_balanced = debitsEqualCredits (body_balanceCheck d)\<rparr>"

definition changes_of :: "tb_body \<Rightarrow> tb_body \<Rightarrow> period_changes" where
  "changes_of fromPeriodData toPeriodData =
     \<lparr>assetsChange = js_sub (totalAssets (totals (body_trialBalance toPeriodData)))
        (totalAssets (totals (body_trialBalance fromPeriodData))),
      liabilitiesChange = js_sub (totalLiabilities (totals (body_trialBalance toPeriodData)))
        (totalLiabilities (totals (body_trialBalance fromPeriodData))),
      equityChange = js_sub (totalEquity (totals (body_trialBalance toPeriodData)))
        (totalEquity (totals (body_trialBalance fromPeriodData))),
      balanceStatusChange = (debitsEqualCredits (body_balanceCheck toPeriodData) \<noteq>
        debitsEqualCredits (body_balanceCheck fromPeriodData))\<rparr>"

text \<open>The assets, liabilities and equity of a period, in this order.\<close>

definition period_accounts :: "tb_body \<Rightarrow> accountInfo list" where
  "period_accounts d = assets (body_trialBalance d) @ liabilities (body_trialBalance d)
     @ equity (body_trialBalance d)"

text \<open>The body of the first \<^verbatim>\<open>forEach\<close>: what one account of the earlier period pushes.\<close>

definition existing_change :: "accountInfo list \<Rightarrow> accountInfo \<Rightarrow> accountChange list" where
  "existing_change toAccounts fromAcc =
     (case find (\<lambda>a. acc_name a = acc_name fromAcc) toAccounts of
        Some toAcc \<Rightarrow>
          (let chg = js_sub (acc_balance toAcc) (acc_balance fromAcc) in
           if js_gt (js_abs chg) (Num 1000) then
             [\<lparr>accountName = acc_name fromAcc, fromBalance = acc_balance fromAcc,
               toBalance = acc_balance toAcc, change = chg,
               changeType = (if js_gt chg (Num 0) then INCREASE else DECREASE)\<rparr>]
           else [])
      | None \<Rightarrow> [])"

text \<open>The body of the second \<^verbatim>\<open>forEach\<close>: what one account of the later period pushes.\<close>

definition new_change :: "accountInfo list \<Rightarrow> accountInfo \<Rightarrow> accountChange list" where
  "new_change fromAccounts toAcc =
     (case find (\<lambda>a. acc_name a = acc_name toAcc) fromAccounts of
        None \<Rightarrow>
          (if js_gt (js_abs (acc_balance toAcc)) (Num 1000) then
             [\<lparr>accountName = acc_name toAcc, fromBalance = Num 0,
               toBalance = acc_balance toAcc, change = acc_balance toAcc,
               changeType = NEW_ACCOUNT\<rparr>]
           else [])
      | Some fromAcc \<Rightarrow> [])"

text \<open>The comparator \<^verbatim>\<open>(a, b) => Math.abs(b.change) - Math.abs(a.change)\<close> is positive.\<close>

definition by_magnitude :: "accountChange \<Rightarrow> accountChange \<Rightarrow> bool" where
  "by_magnitude a b = js_gt (js_sub (js_abs (change b)) (js_abs (change a))) (Num 0)"

definition account_changes :: "accountInfo list \<Rightarrow> accountInfo list \<Rightarrow> accountChange list" where
  "account_changes fromAccounts toAccounts =
     js_sort by_magnitude
       (foldl (\<lambda>acc toAcc. acc @ new_change fromAccounts toAcc)
          (foldl (\<lambda>acc fromAcc. acc @ existing_change toAccounts fromAcc) [] fromAccounts)
          toAccounts)"

definition make_comparison ::
  "string \<Rightarrow> tokenData \<Rightarrow> string \<Rightarrow> string \<Rightarrow> tb_body \<Rightarrow> tb_body \<Rightarrow> comparison" where
  "make_comparison tenantId tok fromDate toDate fromPeriodData toPeriodData =
     (let accountChanges = account_changes (period_accounts fromPeriodData)
            (period_accounts toPeriodData)
      in \<lparr>cmp_tenantId = tenantId, cmp_tenantName = tok_tenantName tok,
          cmp_fromDate = fromDate, cmp_toDate = toDate,
          fromPeriod = summary_of fromPeriodData,
          toPeriod = summary_of toPeriodData,
          changes = changes_of fromPeriodData toPeriodData,
          accountChanges = accountChanges,
          significantChanges =
            filter (\<lambda>c. js_gt (js_abs (change c)) (Num 100000)) accountChanges\<rparr>)"

text \<open>
  \<^verbatim>\<open>GET /api/compare-periods/:tenantId\<close>. The two requests to the trial-balance endpoint
  run under \<^verbatim>\<open>Promise.all\<close>; a rejected request, or a reply that is not \<^verbatim>\<open>ok\<close>, ends
  in the \<^verbatim>\<open>catch\<close> with status 500.
\<close>

definition comparePeriods ::
  "tokenData option \<Rightarrow> string \<Rightarrow> compare_query \<Rightarrow> string \<Rightarrow>
   (string \<Rightarrow> string \<Rightarrow> tb_reply fetched) \<Rightarrow> compare_reply" where
  "comparePeriods tok tenantId query today fetchTB =
     (case tok of
        None \<Rightarrow> CompareError 404 ''Tenant not found or token expired''
      | Some t \<Rightarrow>
          (let fromDate = q_fromDate query;
               toDate = date_or_today (q_toDate query) today;
               accountFilter = q_accountFilter query
           in case fromDate of
                None \<Rightarrow> CompareError 400 ''fromDate parameter is required''
              | Some fd \<Rightarrow>
                  if fd = [] then CompareError 400 ''fromDate parameter is required''
                  else
                    (case (fetchTB tenantId fd, fetchTB tenantId toDate) of
                       (Fetched (Reply200 fromPeriodData), Fetched (Reply200 toPeriodData)) \<Rightarrow>
                         Compare200 (make_comparison tenantId t fd toDate fromPeriodData toPeriodData)
                     | _ \<Rightarrow> CompareError 500 ''Failed to compare periods'')))"

section \<open>Vocabulary for the properties\<close>

subsection \<open>Categories and the sign convention\<close>

datatype category = ASSET | LIABILITY | EQUITY | REVENUE | EXPENSE

fun category_accounts :: "category \<Rightarrow> TrialBalance \<Rightarrow> accountInfo list" where
  "category_accounts ASSET tb = assets tb"
| "category_accounts LIABILITY tb = liabilities tb"
| "category_accounts EQUITY tb = equity tb"
| "category_accounts REVENUE tb = revenue tb"
| "category_accounts EXPENSE tb = expenses tb"

text \<open>
  The sign convention of a category, for a record with balance \<open>v\<close>, debit \<open>d\<close> and
  credit \<open>c\<close>, as the code applies it: revenue and expense records carry the absolute
  value of the balance.
\<close>

fun sign_law :: "category \<Rightarrow> rat \<Rightarrow> rat \<Rightarrow> rat \<Rightarrow> bool" where
  "sign_law ASSET v d c = (d = max v 0 \<and> c = max (- v) 0 \<and> d - c = v)"
| "sign_law LIABILITY v d c = (c = max v 0 \<and> d = max (- v) 0 \<and> c - d = v)"
| "sign_law EQUITY v d c = (c = max v 0 \<and> d = max (- v) 0 \<and> c - d = v)"
| "sign_law REVENUE v d c = (c = \<bar>v\<bar> \<and> d = 0 \<and> c - d = \<bar>v\<bar>)"
| "sign_law EXPENSE v d c = (d = \<bar>v\<bar> \<and> c = 0 \<and> d - c = \<bar>v\<bar>)"

definition record_law :: "category \<Rightarrow> accountInfo \<Rightarrow> bool" where
  "record_law cat a = (\<forall>v. acc_balance a = Num v \<longrightarrow>
     (\<exists>d c. acc_debit a = Num d \<and> acc_credit a = Num c \<and> 0 \<le> d \<and> 0 \<le> c \<and>
        (d = 0 \<or> c = 0) \<and> sign_law cat v d c))"

definition state_law :: "tb_state \<Rightarrow> bool" where
  "state_law st = (\<forall>cat. \<forall>a\<in>set (category_accounts cat (trialBalance st)). record_law cat a)"

subsection \<open>Data rows and the records they become\<close>

text \<open>The section titles that the balance-sheet loop and the profit-and-loss loop classify.\<close>

definition balance_sheet_title :: "string \<Rightarrow> bool" where
  "balance_sheet_title t = (str_includes (toLowerCase t) ''bank'' \<or>
     str_includes (toLowerCase t) ''asset'' \<or> str_includes (toLowerCase t) ''liabilit'' \<or>
     str_includes (toLowerCase t) ''equity'')"

definition profit_loss_title :: "string \<Rightarrow> bool" where
  "profit_loss_title t = (str_includes (toLowerCase t) ''income'' \<or>
     str_includes (toLowerCase t) ''revenue'' \<or> str_includes (toLowerCase t) ''expense'' \<or>
     str_includes (toLowerCase t) ''cost'')"

definition titled :: "(string \<Rightarrow> bool) \<Rightarrow> report_section \<Rightarrow> bool" where
  "titled P s = (case sec_title s of Some t \<Rightarrow> P t | None \<Rightarrow> False)"

definition has_total :: "report_row \<Rightarrow> bool" where
  "has_total r = str_includes (toLowerCase (row_name r)) ''total''"

fun is_number :: "jsnum \<Rightarrow> bool" where
  "is_number (Num x) = True"
| "is_number PInf = False"
| "is_number NInf = False"
| "is_number NaN = False"
| "is_number Null = False"

text \<open>A row is kept when its name has no "total" and its amount is not 0.\<close>

definition kept :: "report_row \<Rightarrow> bool" where
  "kept r = (\<not> has_total r \<and> row_amount r \<noteq> Num 0)"

text \<open>The data rows of a report: the rows of type \<open>Row\<close> with a name cell and an amount
  cell, in the entries of type \<open>Section\<close>.\<close>

definition section_data_rows :: "report_section \<Rightarrow> report_row list" where
  "section_data_rows s =
     (if sec_rowType s = Section then
        (case sec_rows s of Some rs \<Rightarrow> filter row_guard rs | None \<Rightarrow> [])
      else [])"

definition data_rows :: "report_section list \<Rightarrow> report_row list" where
  "data_rows secs = concat (map section_data_rows secs)"

definition all_records :: "TrialBalance \<Rightarrow> accountInfo list" where
  "all_records tb = assets tb @ liabilities tb @ equity tb @ revenue tb @ expenses tb"

definition name_balance :: "accountInfo \<Rightarrow> string \<times> jsnum" where
  "name_balance a = (acc_name a, acc_balance a)"

definition row_name_amount :: "report_row \<Rightarrow> string \<times> jsnum" where
  "row_name_amount r = (row_name r, row_amount r)"

definition records_of :: "tb_state \<Rightarrow> (string \<times> jsnum) multiset" where
  "records_of st = mset (map name_balance (all_records (trialBalance st)))"

definition kept_rows :: "report_row list \<Rightarrow> (string \<times> jsnum) multiset" where
  "kept_rows rs = mset (map row_name_amount (filter kept rs))"

subsection \<open>Successfully fetched entities and their sums\<close>

text \<open>
  The connected entities are the connections that the consolidation loops over; an entity is
  successfully fetched when its request resolves to an \<^verbatim>\<open>ok\<close> reply.
\<close>

definition connected_entities :: "int \<Rightarrow> token_row list fetched \<Rightarrow> connection list" where
  "connected_entities now stored = filter conn_connected (getAllXeroConnections now stored)"

definition fetch_ok :: "(string \<Rightarrow> string \<Rightarrow> tb_reply fetched) \<Rightarrow> string \<Rightarrow> connection \<Rightarrow> bool" where
  "fetch_ok fetchTB reportDate conn =
     (case fetchTB (conn_tenantId conn) reportDate of
        Fetched (Reply200 body) \<Rightarrow> True
      | _ \<Rightarrow> False)"

fun successes :: "(string \<Rightarrow> string \<Rightarrow> tb_reply fetched) \<Rightarrow> string \<Rightarrow> connection list \<Rightarrow> (connection \<times> tb_body) list" where
  "successes fetchTB reportDate [] = []"
| "successes fetchTB reportDate (conn # conns) =
     (case fetchTB (conn_tenantId conn) reportDate of
        Fetched (Reply200 body) \<Rightarrow> (conn, body) # successes fetchTB reportDate conns
      | _ \<Rightarrow> successes fetchTB reportDate conns)"

definition entity_totals :: "(connection \<times> tb_body) list \<Rightarrow> Totals list" where
  "entity_totals ok = map (\<lambda>(conn, body). totals (body_trialBalance body)) ok"

text \<open>The sum that \<^verbatim>\<open>+=\<close> builds from 0, in the order of the list.\<close>

definition js_sum :: "jsnum list \<Rightarrow> jsnum" where
  "js_sum xs = foldl js_add (Num 0) xs"

definition aggregate_fields :: "(Totals \<Rightarrow> jsnum) list" where
  "aggregate_fields = [totalDebits, totalCredits, totalAssets, totalLiabilities, totalEquity,
     totalRevenue, totalExpenses]"

text \<open>The stored tokens without the expired ones.\<close>

definition live_rows :: "int \<Rightarrow> token_row list fetched \<Rightarrow> token_row list fetched" where
  "live_rows now stored =
     (case stored of
        Fetched rows \<Rightarrow> Fetched (filter (\<lambda>row. now < expires_at row) rows)
      | Failed e \<Rightarrow> Failed e)"

subsection \<open>Entries of a period comparison\<close>






subsection \<open>Numbers read from JSON\<close>

text \<open>
  A number that \<^verbatim>\<open>response.json()\<close> returns is \<^verbatim>\<open>null\<close> or a finite double; of a finite
  double the properties below use only that it is a multiple of \<open>2 ^ - 1074\<close>.
\<close>

fun wire_number :: "jsnum \<Rightarrow> bool" where
  "wire_number (Num x) = on_grid x"
| "wire_number Null = True"
| "wire_number PInf = False"
| "wire_number NInf = False"
| "wire_number NaN = False"


text \<open>A finite double, or an infinity.\<close>

fun grid_value :: "jsnum \<Rightarrow> bool" where
  "grid_value (Num x) = on_grid x"
| "grid_value PInf = True"
| "grid_value NInf = True"
| "grid_value NaN = False"
| "grid_value Null = False"

subsection \<open>Sample data\<close>

text \<open>A sample collation for concrete runs: strings compared character code by character code.\<close>

fun ordinal_compare :: "string \<Rightarrow> string \<Rightarrow> int" where
  "ordinal_compare [] [] = 0"
| "ordinal_compare [] (d # ds) = - 1"
| "ordinal_compare (c # cs) [] = 1"
| "ordinal_compare (c # cs) (d # ds) =
     (if (of_char c :: nat) < of_char d then - 1
      else if (of_char d :: nat) < of_char c then 1
      else ordinal_compare cs ds)"

definition data_row :: "string \<Rightarrow> string \<Rightarrow> report_row" where
  "data_row name amount = \<lparr>row_rowType = Row, row_cells = Some [Some name, Some amount]\<rparr>"

definition titled_section :: "string \<Rightarrow> report_row list \<Rightarrow> report_section" where
  "titled_section title rs = \<lparr>sec_rowType = Section, sec_title = Some title, sec_rows = Some rs\<rparr>"

text \<open>A small balance sheet: assets 100, liabilities 40, equity 60.\<close>

definition sample_balance_sheet :: "report_section list" where
  "sample_balance_sheet =
     [titled_section ''Bank'' [data_row ''Cheque Account'' ''100.00''],
      titled_section ''Current Liabilities'' [data_row ''GST'' ''40.00''],
      titled_section ''Equity'' [data_row ''Retained Earnings'' ''60.00'',
        data_row ''Total Equity'' ''60.00'']]"

text \<open>A profit-and-loss report with a negative revenue line and a zero line.\<close>

definition sample_profit_loss :: "report_section list" where
  "sample_profit_loss =
     [titled_section ''Income'' [data_row ''Sales'' ''500.00'', data_row ''Refunds'' ''-500''],
      titled_section ''Less Operating Expenses'' [data_row ''Rent'' ''200.00'',
        data_row ''Bank Fees'' ''0.00'']]"

definition sample_account :: "string \<Rightarrow> string \<Rightarrow> rat \<Rightarrow> accountInfo" where
  "sample_account title name v = \<lparr>acc_name = name, acc_balance = Num v,
     acc_debit = (if title = ''Bank'' then Num v else Num 0),
     acc_credit = (if title = ''Bank'' then Num 0 else Num v), acc_section = title\<rparr>"

definition sample_totals :: "rat \<Rightarrow> rat \<Rightarrow> rat \<Rightarrow> Totals" where
  "sample_totals a l e = \<lparr>totalDebits = Num a, totalCredits = Num (l + e), totalAssets = Num a,
     totalLiabilities = Num l, totalEquity = Num e, totalRevenue = Num 0,
     totalExpenses = Num 0\<rparr>"

definition sample_body ::
  "string \<Rightarrow> string \<Rightarrow> accountInfo list \<Rightarrow> accountInfo list \<Rightarrow> accountInfo list \<Rightarrow> Totals \<Rightarrow> tb_body" where
  "sample_body tenantId reportDate as ls es t =
     \<lparr>body_tenantId = tenantId, body_tenantName = tenantId,
      body_trialBalance = \<lparr>assets = as, liabilities = ls, equity = es, revenue = [],
        expenses = [], totals = t\<rparr>,
      body_balanceCheck = balance_check t, body_reportDate = reportDate,
      body_processedAccounts = length as + length ls + length es\<rparr>"

text \<open>
  Replies of the trial-balance endpoint for three entities: A is balanced (assets 100000,
  liabilities 40000, equity 60000), the request for B is rejected, and C has one trial
  balance as of 2024-01-01 and another afterwards.
\<close>

definition sample_fetch :: "string \<Rightarrow> string \<Rightarrow> tb_reply fetched" where
  "sample_fetch tenantId reportDate =
     (if tenantId = ''A'' then
        Fetched (Reply200 (sample_body ''A'' reportDate
          [sample_account ''Bank'' ''Cheque Account'' 100000]
          [sample_account ''Current Liabilities'' ''GST'' 40000]
          [sample_account ''Equity'' ''Retained Earnings'' 60000]
          (sample_totals 100000 40000 60000)))
      else if tenantId = ''B'' then Failed ''socket hang up''
      else if reportDate = ''2024-01-01'' then
        Fetched (Reply200 (sample_body tenantId reportDate
          [sample_account ''Bank'' ''Cash'' 5000]
          [sample_account ''Current Liabilities'' ''Loan'' 5000,
           sample_account ''Current Liabilities'' ''Old Loan'' 9000]
          [] (sample_totals 5000 14000 0)))
      else
        Fetched (Reply200 (sample_body tenantId reportDate
          [sample_account ''Bank'' ''Cash'' 7000, sample_account ''Bank'' ''Future Fund'' 150000]
          [sample_account ''Current Liabilities'' ''Loan'' 5500]
          [] (sample_totals 157000 5500 0))))"

text \<open>The same replies, except that requests for one tenant are rejected.\<close>

definition sample_fetch_without :: "string \<Rightarrow> string \<Rightarrow> string \<Rightarrow> tb_reply fetched" where
  "sample_fetch_without excluded tenantId reportDate =
     (if tenantId = excluded then Failed ''not reachable'' else sample_fetch tenantId reportDate)"

text \<open>Four stored tokens; at time 1000 the token of D has expired.\<close>

definition sample_tokens :: "token_row list" where
  "sample_tokens =
     [\<lparr>tenant_id = ''A'', tenant_name = ''Entity A'', expires_at = 2000\<rparr>,
      \<lparr>tenant_id = ''B'', tenant_name = ''Entity B'', expires_at = 2000\<rparr>,
      \<lparr>tenant_id = ''C'', tenant_name = ''Entity C'', expires_at = 2000\<rparr>,
      \<lparr>tenant_id = ''D'', tenant_name = ''Entity D'', expires_at = 500\<rparr>]"

definition sample_connection :: "string \<Rightarrow> string \<Rightarrow> connection" where
  "sample_connection tenantId tenantName = \<lparr>conn_tenantId = tenantId,
     conn_tenantName = tenantName, conn_connected = True, conn_error = None\<rparr>"

definition sample_query :: compare_query where
  "sample_query = \<lparr>q_fromDate = Some ''2024-01-01'', q_toDate = Some ''2024-06-30'',
     q_accountFilter = None\<rparr>"

definition sample_token :: tokenData where
  "sample_token = \<lparr>tok_tenantId = ''C'', tok_tenantName = ''Entity C''\<rparr>"

text \<open>A balance sheet in cents: assets 0.03, liabilities 0.02.\<close>

definition cents_balance_sheet :: "report_section list" where
  "cents_balance_sheet =
     [titled_section ''Bank'' [data_row ''Cash'' ''0.03''],
      titled_section ''Current Liabilities'' [data_row ''Loan'' ''0.02'']]"

text \<open>Totals of an entity that has assets only.\<close>

definition assets_only :: "jsnum \<Rightarrow> Totals" where
  "assets_only a = \<lparr>totalDebits = a, totalCredits = Num 0, totalAssets = a,
     totalLiabilities = Num 0, totalEquity = Num 0, totalRevenue = Num 0,
     totalExpenses = Num 0\<rparr>"

text \<open>Replies in which A reports assets of 0.1 and every other entity assets of 0.2.\<close>

definition tenths_fetch :: "string \<Rightarrow> string \<Rightarrow> tb_reply fetched" where
  "tenths_fetch tenantId reportDate =
     (if tenantId = ''A'' then
        Fetched (Reply200 (sample_body ''A'' reportDate [] [] [] (assets_only (parseFloat ''0.1''))))
      else
        Fetched (Reply200 (sample_body tenantId reportDate [] [] []
          (assets_only (parseFloat ''0.2'')))))"

definition two_tokens :: "token_row list" where
  "two_tokens =
     [\<lparr>tenant_id = ''A'', tenant_name = ''Entity A'', expires_at = 2000\<rparr>,
      \<lparr>tenant_id = ''C'', tenant_name = ''Entity C'', expires_at = 2000\<rparr>]"






section \<open>Properties of the rounding\<close>

lemmas bit_length_unfold = bit_length.simps
declare bit_length.simps [simp del]



lemma pow2_add: "pow2 (a + b) = pow2 a * pow2 b"
proof -
  have "pow2 e = 2 powi e" for e
    by (simp add: pow2_def power_int_def field_simps)
  then show ?thesis
    by (simp add: power_int_add)
qed





lemma on_grid_int: "on_grid x \<longleftrightarrow> (\<exists>k::int. x * 2 ^ 1074 = of_int k)"
  unfolding on_grid_def by (metis floor_of_int)



lemma on_grid_minus: "on_grid x \<Longrightarrow> on_grid (- x)"
  unfolding on_grid_int
  by (metis mult_minus_left of_int_minus)



lemma round_double_cases:
  assumes "x \<noteq> 0"
  shows "round_double x =
    (let r = of_int (round_half_even (\<bar>x\<bar> / spacing \<bar>x\<bar>)) * spacing \<bar>x\<bar>
     in if pow2 1024 \<le> r then (if x < 0 then NInf else PInf)
        else Num (if x < 0 then - r else r))"
  using assms by (simp add: round_double_def Let_def)



lemma round_double_on_grid:
  assumes "round_double x = Num r"
  shows "on_grid r"
proof (cases "x = 0")
  case True
  with assms show ?thesis
    by (simp add: round_double_def on_grid_def)
next
  case False
  define e where "e = max (binary_exponent \<bar>x\<bar>) (- 1022)"
  define n where "n = round_half_even (\<bar>x\<bar> / spacing \<bar>x\<bar>)"
  have sp: "spacing \<bar>x\<bar> = pow2 (e - 52)"
    by (simp add: spacing_def e_def)
  have "e - 52 + 1074 \<ge> 0"
    by (simp add: e_def)
  have "pow2 (e - 52) * 2 ^ 1074 = pow2 (e - 52) * pow2 1074"
    by (simp add: pow2_def)
  also have "\<dots> = pow2 (e + 1022)"
    by (simp add: pow2_add [symmetric] add.commute)
  also have "\<dots> = 2 ^ nat (e + 1022)"
    by (simp add: pow2_def e_def)
  finally have g: "pow2 (e - 52) * 2 ^ 1074 = of_int (2 ^ nat (e + 1022))"
    by simp
  have "on_grid (of_int n * pow2 (e - 52))"
    unfolding on_grid_int
    by (metis g mult.assoc of_int_mult)
  moreover from assms False have "r = of_int n * pow2 (e - 52) \<or> r = - (of_int n * pow2 (e - 52))"
    by (auto simp: round_double_cases Let_def sp n_def split: if_splits)
  ultimately show ?thesis
    using on_grid_minus by blast
qed

section \<open>Evaluation on concrete inputs\<close>

lemma floor_numeral_div: "\<lfloor>(numeral a :: rat) / numeral b\<rfloor> = numeral a div numeral b"
  using floor_divide_of_int_eq [of "numeral a" "numeral b", where ?'a = rat] by simp

lemmas eval_defs = buildTrialBalance_def profit_loss_block_def process_balance_sheet_def
  process_profit_loss_def process_section_def section_guard_def bs_row_def pl_row_def
  row_guard_def row_skipped_def row_name_def row_amount_def cell_name_def cell_amount_def
  toLowerCase_def lower_char_def parseFloat_def space_prefixes_def is_digit_def digits_val_def
  digit_val_def js_add_def js_sub_def js_lt_def js_gt_def js_ge_def js_abs_def
  sort_categories_def by_name_def balance_check_def init_state_def zero_totals_def
  add_debit_credit_def rows_or_empty_def data_row_def titled_section_def Let_def
  round_double_def spacing_def binary_exponent_def pow2_def round_half_even_def
  bit_length_unfold tolerance_def floor_numeral_div sample_balance_sheet_def
  sample_profit_loss_def cents_balance_sheet_def

lemmas row_defs = titled_def balance_sheet_title_def profit_loss_title_def has_total_def
  kept_def data_rows_def section_data_rows_def

section \<open>Properties of the single-entity trial balance\<close>


lemma profit_loss_block_Inr:
  assumes "profit_loss_block st0 pl = Inr st"
  shows "\<exists>prs. pl = Fetched prs \<and> st = process_profit_loss st0 (rows_or_empty prs)"
  using assms
  by (cases pl) (simp_all add: profit_loss_block_def console_call_def console_methods_def)

lemma buildTrialBalance_Inr:
  assumes "buildTrialBalance lc bs pl = Inr b"
  shows "\<exists>rs prs st. bs = Fetched rs \<and> pl = Fetched prs \<and>
           st = process_profit_loss (process_balance_sheet init_state (rows_or_empty rs))
                  (rows_or_empty prs) \<and>
           built_trialBalance b = sort_categories lc (trialBalance st) \<and>
           built_balanceCheck b = balance_check (totals (trialBalance st)) \<and>
           built_processedAccounts b = processedAccounts st"
proof (cases bs)
  case (Failed e)
  with assms show ?thesis
    by (simp add: buildTrialBalance_def)
next
  case (Fetched rs)
  let ?st0 = "process_balance_sheet init_state (rows_or_empty rs)"
  from assms Fetched obtain st where blk: "profit_loss_block ?st0 pl = Inr st"
    and b: "b = \<lparr>built_trialBalance = sort_categories lc (trialBalance st),
                  built_balanceCheck = balance_check (totals (trialBalance st)),
                  built_processedAccounts = processedAccounts st\<rparr>"
    by (cases "profit_loss_block ?st0 pl") (simp_all add: buildTrialBalance_def)
  from profit_loss_block_Inr [OF blk] obtain prs where
    "pl = Fetched prs" "st = process_profit_loss ?st0 (rows_or_empty prs)"
    by blast
  with Fetched b show ?thesis
    by simp
qed




text \<open>
  Claim C7. The claim asks that a failed profit-and-loss fetch leaves a successful,
  balance-sheet-only trial balance. In the code the handler of that failure calls
  \<^verbatim>\<open>console.errorlog\<close>, which the console does not have: the call throws, and the whole
  operation fails, whatever the balance sheet was.
\<close>

theorem profit_loss_failure_fails_build:
  "buildTrialBalance localeCompare (Fetched rs) (Failed plError) =
     Inl ''console.errorlog is not a function''"
  by (simp add: buildTrialBalance_def profit_loss_block_def console_call_def
      console_methods_def)

text \<open>
  Claim C8. The claim asks that a row whose amount does not parse as a number is skipped
  and changes no total. In the code the amount of such a row is \<^verbatim>\<open>NaN\<close>, which is not
  \<^verbatim>\<open>=== 0\<close>: the row becomes an account record with balance \<^verbatim>\<open>NaN\<close>, and the total
  of its category becomes \<^verbatim>\<open>NaN\<close> as well.
\<close>

theorem unparseable_amount_not_skipped:
  "buildTrialBalance ordinal_compare
     (Fetched (Some [titled_section ''Assets'' [data_row ''Cash'' ''abc'', data_row ''Stock'' ''100'']]))
     (Fetched None) =
   Inr \<lparr>built_trialBalance =
          \<lparr>assets =
             [\<lparr>acc_name = ''Cash'', acc_balance = NaN, acc_debit = Num 0,
                acc_credit = Num 0, acc_section = ''Assets''\<rparr>,
              \<lparr>acc_name = ''Stock'', acc_balance = Num 100, acc_debit = Num 100,
                acc_credit = Num 0, acc_section = ''Assets''\<rparr>],
           liabilities = [], equity = [], revenue = [], expenses = [],
           totals =
             \<lparr>totalDebits = Num 100, totalCredits = Num 0, totalAssets = NaN,
              totalLiabilities = Num 0, totalEquity = Num 0, totalRevenue = Num 0,
              totalExpenses = Num 0\<rparr>\<rparr>,
        built_balanceCheck =
          \<lparr>debitsEqualCredits = False, difference = Num 100,
           accountingEquation =
             \<lparr>eq_assets = NaN, eq_liabilitiesAndEquity = Num 0, eq_balanced = False\<rparr>\<rparr>,
        built_processedAccounts = 2\<rparr>"
  by (simp add: eval_defs)

subsection \<open>The sign convention of the records\<close>

lemma sample_built:
  "buildTrialBalance ordinal_compare (Fetched (Some sample_balance_sheet))
     (Fetched (Some sample_profit_loss)) =
   Inr \<lparr>built_trialBalance =
          \<lparr>assets =
             [\<lparr>acc_name = ''Cheque Account'', acc_balance = Num 100, acc_debit = Num 100,
                acc_credit = Num 0, acc_section = ''Bank''\<rparr>],
           liabilities =
             [\<lparr>acc_name = ''GST'', acc_balance = Num 40, acc_debit = Num 0,
                acc_credit = Num 40, acc_section = ''Current Liabilities''\<rparr>],
           equity =
             [\<lparr>acc_name = ''Retained Earnings'', acc_balance = Num 60, acc_debit = Num 0,
                acc_credit = Num 60, acc_section = ''Equity''\<rparr>],
           revenue =
             [\<lparr>acc_name = ''Refunds'', acc_balance = Num (- 500), acc_debit = Num 0,
                acc_credit = Num 500, acc_section = ''Income''\<rparr>,
              \<lparr>acc_name = ''Sales'', acc_balance = Num 500, acc_debit = Num 0,
                acc_credit = Num 500, acc_section = ''Income''\<rparr>],
           expenses =
             [\<lparr>acc_name = ''Rent'', acc_balance = Num 200, acc_debit = Num 200,
                acc_credit = Num 0, acc_section = ''Less Operating Expenses''\<rparr>],
           totals =
             \<lparr>totalDebits = Num 300, totalCredits = Num 1100, totalAssets = Num 100,
              totalLiabilities = Num 40, totalEquity = Num 60, totalRevenue = Num 1000,
              totalExpenses = Num 200\<rparr>\<rparr>,
        built_balanceCheck =
          \<lparr>debitsEqualCredits = False, difference = Num (- 800),
           accountingEquation =
             \<lparr>eq_assets = Num 100, eq_liabilitiesAndEquity = Num 100, eq_balanced = True\<rparr>\<rparr>,
        built_processedAccounts = 6\<rparr>"
  by (simp add: eval_defs)

lemma foldl_invariant:
  assumes "P s" and "\<And>s x. P s \<Longrightarrow> P (f s x)"
  shows "P (foldl f s xs)"
  using assms by (induction xs arbitrary: s) simp_all

lemma state_law_iff:
  "state_law st \<longleftrightarrow>
     (\<forall>a\<in>set (assets (trialBalance st)). record_law ASSET a) \<and>
     (\<forall>a\<in>set (liabilities (trialBalance st)). record_law LIABILITY a) \<and>
     (\<forall>a\<in>set (equity (trialBalance st)). record_law EQUITY a) \<and>
     (\<forall>a\<in>set (revenue (trialBalance st)). record_law REVENUE a) \<and>
     (\<forall>a\<in>set (expenses (trialBalance st)). record_law EXPENSE a)"
  unfolding state_law_def
  apply (rule iffI)
   apply (intro conjI)
       apply (erule_tac x=ASSET in allE, simp)
       apply (erule_tac x=LIABILITY in allE, simp)
       apply (erule_tac x=EQUITY in allE, simp)
       apply (erule_tac x=REVENUE in allE, simp)
       apply (erule_tac x=EXPENSE in allE, simp)
  apply (rule allI)
  subgoal for cat by (cases cat) simp_all
  done

lemma pos_neg_law:
  "record_law ASSET \<lparr>acc_name = n, acc_balance = x,
      acc_debit = (if js_ge x (Num 0) then x else Num 0),
      acc_credit = (if js_lt x (Num 0) then js_abs x else Num 0), acc_section = t\<rparr>"
  "record_law LIABILITY \<lparr>acc_name = n, acc_balance = x,
      acc_debit = (if js_lt x (Num 0) then js_abs x else Num 0),
      acc_credit = (if js_ge x (Num 0) then x else Num 0), acc_section = t\<rparr>"
  "record_law EQUITY \<lparr>acc_name = n, acc_balance = x,
      acc_debit = (if js_lt x (Num 0) then js_abs x else Num 0),
      acc_credit = (if js_ge x (Num 0) then x else Num 0), acc_section = t\<rparr>"
  "record_law REVENUE \<lparr>acc_name = n, acc_balance = x,
      acc_debit = Num 0, acc_credit = js_abs x, acc_section = t\<rparr>"
  "record_law EXPENSE \<lparr>acc_name = n, acc_balance = x,
      acc_debit = js_abs x, acc_credit = Num 0, acc_section = t\<rparr>"
  by (auto simp: record_law_def js_ge_def js_lt_def js_abs_def)

lemma bs_row_law: "state_law st \<Longrightarrow> state_law (bs_row title st r)"
  unfolding state_law_iff
  by (simp add: bs_row_def Let_def pos_neg_law)

lemma pl_row_law: "state_law st \<Longrightarrow> state_law (pl_row title st r)"
  unfolding state_law_iff
  by (simp add: pl_row_def Let_def pos_neg_law)

lemma process_section_law:
  assumes "\<And>title st r. state_law st \<Longrightarrow> state_law (row_step title st r)"
    and "state_law st"
  shows "state_law (process_section row_step st s)"
  using assms
  by (auto simp: process_section_def split: option.splits intro: foldl_invariant)

lemma process_balance_sheet_law:
  "state_law st \<Longrightarrow> state_law (process_balance_sheet st secs)"
  unfolding process_balance_sheet_def
  by (rule foldl_invariant) (auto intro: process_section_law bs_row_law)

lemma process_profit_loss_law:
  "state_law st \<Longrightarrow> state_law (process_profit_loss st secs)"
  unfolding process_profit_loss_def
  by (rule foldl_invariant) (auto intro: process_section_law pl_row_law)

lemma init_state_law: "state_law init_state"
  by (simp add: state_law_iff init_state_def)

lemma mset_insert_by: "mset (insert_by gt x ys) = add_mset x (mset ys)"
  by (induction ys) simp_all

lemma mset_js_sort: "mset (js_sort gt xs) = mset xs"
  by (induction xs) (simp_all add: mset_insert_by)

lemma set_js_sort: "set (js_sort gt xs) = set xs"
  using mset_js_sort [of gt xs] by (metis set_mset_mset)

lemma length_js_sort: "length (js_sort gt xs) = length xs"
  using mset_js_sort [of gt xs] by (metis size_mset)

lemma category_accounts_sorted:
  "set (category_accounts cat (sort_categories lc tb)) = set (category_accounts cat tb)"
  by (cases cat) (simp_all add: sort_categories_def set_js_sort)

text \<open>
  Claim C2, as amended. Every account record of a built trial balance whose balance is a
  number has a non-negative debit and a non-negative credit, at most one of them nonzero.
  For an asset record the debit is \<open>max balance 0\<close>, the credit \<open>max (- balance) 0\<close> and
  debit minus credit is the balance; for a liability or equity record the credit is
  \<open>max balance 0\<close>, the debit \<open>max (- balance) 0\<close> and credit minus debit is the balance;
  for a revenue record the credit is the absolute value of the balance, the debit is 0 and
  credit minus debit is that absolute value; for an expense record the debit is the
  absolute value of the balance, the credit is 0 and debit minus credit is that absolute
  value.
\<close>

theorem sign_law_of_built:
  assumes "buildTrialBalance localeCompare bs pl = Inr b"
  shows "\<forall>cat. \<forall>a\<in>set (category_accounts cat (built_trialBalance b)). \<forall>v. acc_balance a = Num v \<longrightarrow>
     (\<exists>d c. acc_debit a = Num d \<and> acc_credit a = Num c \<and> 0 \<le> d \<and> 0 \<le> c \<and>
        (d = 0 \<or> c = 0) \<and> sign_law cat v d c)"
proof -
  from buildTrialBalance_Inr [OF assms] obtain rs prs and st :: tb_state where
    st: "st = process_profit_loss (process_balance_sheet init_state (rows_or_empty rs))
                  (rows_or_empty prs)"
    and tb: "built_trialBalance b = sort_categories localeCompare (trialBalance st)"
    by blast
  have "state_law st"
    unfolding st by (intro process_profit_loss_law process_balance_sheet_law init_state_law)
  then show ?thesis
    unfolding tb category_accounts_sorted state_law_def record_law_def .
qed

theorem sign_law_of_built_witness:
  "buildTrialBalance ordinal_compare (Fetched (Some sample_balance_sheet))
     (Fetched (Some sample_profit_loss)) =
     Inr (projr (buildTrialBalance ordinal_compare (Fetched (Some sample_balance_sheet))
       (Fetched (Some sample_profit_loss))))
   \<and> (\<exists>d c. Num 0 = Num d \<and> Num 500 = Num c \<and> 0 \<le> d \<and> 0 \<le> c \<and> (d = 0 \<or> c = 0) \<and>
          sign_law REVENUE (- 500) d c)"
proof -
  let ?r = "buildTrialBalance ordinal_compare (Fetched (Some sample_balance_sheet))
     (Fetched (Some sample_profit_loss))"
  let ?a = "\<lparr>acc_name = ''Refunds'', acc_balance = Num (- 500), acc_debit = Num 0,
     acc_credit = Num 500, acc_section = ''Income''\<rparr>"
  have h: "?r = Inr (projr ?r)"
    unfolding sample_built by simp
  have m: "?a \<in> set (category_accounts REVENUE (built_trialBalance (projr ?r)))"
    unfolding sample_built by simp
  from sign_law_of_built [OF h] m
  have "\<forall>v. acc_balance ?a = Num v \<longrightarrow>
     (\<exists>d c. acc_debit ?a = Num d \<and> acc_credit ?a = Num c \<and> 0 \<le> d \<and> 0 \<le> c \<and>
        (d = 0 \<or> c = 0) \<and> sign_law REVENUE v d c)"
    by blast
  then have "\<exists>d c. Num 0 = Num d \<and> Num 500 = Num c \<and> 0 \<le> d \<and> 0 \<le> c \<and> (d = 0 \<or> c = 0) \<and>
          sign_law REVENUE (- 500) d c"
    by simp
  with h show ?thesis
    by (rule conjI)
qed

text \<open>
  The claim as stated asks that credit minus debit be the balance of a revenue record.
  A revenue line of -500 becomes a record with credit 500 and debit 0.
\<close>

theorem sign_law_counterexample:
  "revenue (built_trialBalance (projr (buildTrialBalance ordinal_compare (Fetched (Some []))
      (Fetched (Some [titled_section ''Income'' [data_row ''Refunds'' ''-500'']]))))) =
     [\<lparr>acc_name = ''Refunds'', acc_balance = Num (- 500), acc_debit = Num 0,
       acc_credit = Num 500, acc_section = ''Income''\<rparr>]
   \<and> js_sub (Num 500) (Num 0) \<noteq> Num (- 500)"
  by (simp add: eval_defs)

subsection \<open>One record for each kept row\<close>

lemma strict_eq_zero: "js_strict_eq x (Num 0) \<longleftrightarrow> x = Num 0"
  by (cases x) auto

lemma row_skipped_iff: "row_skipped r \<longleftrightarrow> \<not> kept r"
  by (simp add: row_skipped_def kept_def has_total_def strict_eq_zero)

lemma bs_row_records:
  assumes "balance_sheet_title title"
  shows "records_of (bs_row title st r) = records_of st + kept_rows (filter row_guard [r])"
  using assms
  by (auto simp: bs_row_def Let_def records_of_def kept_rows_def all_records_def
      name_balance_def row_name_amount_def balance_sheet_title_def row_skipped_iff)

lemma pl_row_records:
  assumes "profit_loss_title title"
  shows "records_of (pl_row title st r) = records_of st + kept_rows (filter row_guard [r])"
  using assms
  by (auto simp: pl_row_def Let_def records_of_def kept_rows_def all_records_def
      name_balance_def row_name_amount_def profit_loss_title_def row_skipped_iff)

lemma kept_rows_append: "kept_rows (xs @ ys) = kept_rows xs + kept_rows ys"
  by (simp add: kept_rows_def)

lemma foldl_rows_records:
  assumes "\<And>st r. records_of (row_step st r) = records_of st + kept_rows (filter row_guard [r])"
  shows "records_of (foldl row_step st rs) = records_of st + kept_rows (filter row_guard rs)"
proof (induction rs arbitrary: st)
  case Nil
  show ?case by (simp add: kept_rows_def)
next
  case (Cons r rs)
  have "filter row_guard (r # rs) = filter row_guard [r] @ filter row_guard rs"
    by simp
  then show ?case
    using Cons [of "row_step st r"] assms [of st r]
    by (simp only: foldl_Cons kept_rows_append add.assoc)
qed

lemma title_not_empty:
  "balance_sheet_title t \<Longrightarrow> t \<noteq> []" "profit_loss_title t \<Longrightarrow> t \<noteq> []"
  by (auto simp: balance_sheet_title_def profit_loss_title_def toLowerCase_def)

lemma process_section_records:
  assumes step: "\<And>title st r. P title \<Longrightarrow>
      records_of (row_step title st r) = records_of st + kept_rows (filter row_guard [r])"
    and nonempty: "\<And>t. P t \<Longrightarrow> t \<noteq> []"
    and ok: "sec_rowType s = Section \<longrightarrow> titled P s"
  shows "records_of (process_section row_step st s) = records_of st + kept_rows (section_data_rows s)"
proof (cases "sec_rowType s = Section")
  case False
  then show ?thesis
    by (simp add: process_section_def section_guard_def section_data_rows_def kept_rows_def)
next
  case True
  with ok obtain t where t: "sec_title s = Some t" "P t"
    by (auto simp: titled_def split: option.splits)
  show ?thesis
  proof (cases "sec_rows s")
    case None
    with True show ?thesis
      by (simp add: process_section_def section_guard_def section_data_rows_def kept_rows_def)
  next
    case (Some rs)
    have "records_of (foldl (row_step t) st rs) = records_of st + kept_rows (filter row_guard rs)"
      by (rule foldl_rows_records [of "row_step t"]) (rule step [OF t(2)])
    with True t Some nonempty [OF t(2)] show ?thesis
      by (simp add: process_section_def section_guard_def section_data_rows_def)
  qed
qed

lemma foldl_sections_records:
  assumes "\<And>st s. s \<in> set secs \<Longrightarrow>
      records_of (f st s) = records_of st + kept_rows (section_data_rows s)"
  shows "records_of (foldl f st secs) = records_of st + kept_rows (data_rows secs)"
  using assms
proof (induction secs arbitrary: st)
  case Nil
  show ?case by (simp add: kept_rows_def data_rows_def)
next
  case (Cons s secs)
  have "data_rows (s # secs) = section_data_rows s @ data_rows secs"
    by (simp add: data_rows_def)
  moreover have "records_of (foldl f (f st s) secs) = records_of (f st s) + kept_rows (data_rows secs)"
    by (rule Cons.IH) (simp add: Cons.prems)
  moreover have "records_of (f st s) = records_of st + kept_rows (section_data_rows s)"
    by (rule Cons.prems) simp
  ultimately show ?case
    by (simp only: foldl_Cons kept_rows_append add.assoc)
qed

lemma process_balance_sheet_records:
  assumes "\<forall>s\<in>set secs. sec_rowType s = Section \<longrightarrow> titled balance_sheet_title s"
  shows "records_of (process_balance_sheet st secs) = records_of st + kept_rows (data_rows secs)"
  unfolding process_balance_sheet_def
  by (rule foldl_sections_records, rule process_section_records [where P = balance_sheet_title])
     (use assms in \<open>simp_all add: bs_row_records title_not_empty\<close>)

lemma process_profit_loss_records:
  assumes "\<forall>s\<in>set secs. sec_rowType s = Section \<longrightarrow> titled profit_loss_title s"
  shows "records_of (process_profit_loss st secs) = records_of st + kept_rows (data_rows secs)"
  unfolding process_profit_loss_def
  by (rule foldl_sections_records, rule process_section_records [where P = profit_loss_title])
     (use assms in \<open>simp_all add: pl_row_records title_not_empty\<close>)

lemma records_sorted:
  "mset (map name_balance (all_records (sort_categories lc tb))) =
   mset (map name_balance (all_records tb))"
  by (simp add: all_records_def sort_categories_def mset_js_sort)

text \<open>
  Claim C3, as amended. Take a balance sheet in which every section has a title with
  "bank", "asset", "liabilit" or "equity", a profit-and-loss report in which every section
  has a title with "income", "revenue", "expense" or "cost", and let every data row whose
  name has no "total" carry an amount that parses to a number. Then the account records of
  the built trial balance are, with their names and balances, exactly the data rows whose
  name has no "total" and whose amount is not 0: a row with "total" in its name or with
  amount 0 gives no record. In particular, when all N data rows are of that kind, there are
  exactly N records.
\<close>

theorem records_of_rows:
  assumes built: "buildTrialBalance localeCompare (Fetched (Some bs)) (Fetched (Some pl)) = Inr b"
    and bs_titles: "\<forall>s\<in>set bs. sec_rowType s = Section \<longrightarrow> titled balance_sheet_title s"
    and pl_titles: "\<forall>s\<in>set pl. sec_rowType s = Section \<longrightarrow> titled profit_loss_title s"
    and numbers: "\<forall>r\<in>set (data_rows bs @ data_rows pl). \<not> has_total r \<longrightarrow> is_number (row_amount r)"
  shows "mset (map name_balance (all_records (built_trialBalance b))) =
           mset (map row_name_amount (filter kept (data_rows bs @ data_rows pl)))
       \<and> ((\<forall>r\<in>set (data_rows bs @ data_rows pl). kept r) \<longrightarrow>
            length (all_records (built_trialBalance b)) = length (data_rows bs @ data_rows pl))"
proof -
  from buildTrialBalance_Inr [OF built] obtain st :: tb_state where
    st: "st = process_profit_loss (process_balance_sheet init_state bs) pl"
    and tb: "built_trialBalance b = sort_categories localeCompare (trialBalance st)"
    by (auto simp: rows_or_empty_def)
  have "records_of st = kept_rows (data_rows bs) + kept_rows (data_rows pl)"
    unfolding st
    by (simp add: process_profit_loss_records [OF pl_titles]
        process_balance_sheet_records [OF bs_titles])
      (simp add: records_of_def init_state_def all_records_def)
  then have main: "mset (map name_balance (all_records (built_trialBalance b))) =
      mset (map row_name_amount (filter kept (data_rows bs @ data_rows pl)))"
    unfolding tb records_sorted by (simp add: records_of_def kept_rows_def)
  have "length (all_records (built_trialBalance b)) = length (data_rows bs @ data_rows pl)"
    if "\<forall>r\<in>set (data_rows bs @ data_rows pl). kept r"
  proof -
    from that have "filter kept (data_rows bs @ data_rows pl) = data_rows bs @ data_rows pl"
      by (simp only: filter_id_conv)
    moreover from main have "size (mset (map name_balance (all_records (built_trialBalance b)))) =
        size (mset (map row_name_amount (filter kept (data_rows bs @ data_rows pl))))"
      by (rule arg_cong)
    ultimately show ?thesis
      by (simp only: size_mset length_map)
  qed
  with main show ?thesis
    by blast
qed

theorem records_of_rows_witness:
  "mset (map name_balance (all_records (built_trialBalance
     (projr (buildTrialBalance ordinal_compare (Fetched (Some sample_balance_sheet))
       (Fetched (Some sample_profit_loss))))))) =
   mset (map row_name_amount (filter kept
     (data_rows sample_balance_sheet @ data_rows sample_profit_loss)))
   \<and> length (filter kept (data_rows sample_balance_sheet @ data_rows sample_profit_loss)) = 6"
proof -
  let ?r = "buildTrialBalance ordinal_compare (Fetched (Some sample_balance_sheet))
     (Fetched (Some sample_profit_loss))"
  have h: "?r = Inr (projr ?r)"
    unfolding sample_built by simp
  have b: "\<forall>s\<in>set sample_balance_sheet. sec_rowType s = Section \<longrightarrow> titled balance_sheet_title s"
    by (simp add: eval_defs row_defs)
  have p: "\<forall>s\<in>set sample_profit_loss. sec_rowType s = Section \<longrightarrow> titled profit_loss_title s"
    by (simp add: eval_defs row_defs)
  have n: "\<forall>r\<in>set (data_rows sample_balance_sheet @ data_rows sample_profit_loss).
      \<not> has_total r \<longrightarrow> is_number (row_amount r)"
    by (simp add: eval_defs row_defs)
  have l: "length (filter kept (data_rows sample_balance_sheet @ data_rows sample_profit_loss)) = 6"
    by (simp add: eval_defs row_defs)
  from records_of_rows [OF h b p n] l show ?thesis
    by blast
qed

text \<open>
  The claim as stated speaks of any report whose section titles match one of the five
  keyword sets. A balance sheet with a section "Revenue" holding one row, not a total and
  with amount 100, gives no record: the balance-sheet loop has no revenue branch.
\<close>

theorem records_of_rows_counterexample:
  "buildTrialBalance ordinal_compare
     (Fetched (Some [titled_section ''Revenue'' [data_row ''Sales'' ''100'']]))
     (Fetched (Some [])) =
   Inr \<lparr>built_trialBalance =
          \<lparr>assets = [], liabilities = [], equity = [], revenue = [], expenses = [],
           totals =
             \<lparr>totalDebits = Num 0, totalCredits = Num 0, totalAssets = Num 0,
              totalLiabilities = Num 0, totalEquity = Num 0, totalRevenue = Num 0,
              totalExpenses = Num 0\<rparr>\<rparr>,
        built_balanceCheck =
          \<lparr>debitsEqualCredits = True, difference = Num 0,
           accountingEquation =
             \<lparr>eq_assets = Num 0, eq_liabilitiesAndEquity = Num 0, eq_balanced = True\<rparr>\<rparr>,
        built_processedAccounts = 1\<rparr>
   \<and> profit_loss_title ''Revenue''
   \<and> kept (data_row ''Sales'' ''100'')
   \<and> row_amount (data_row ''Sales'' ''100'') = Num 100"
  by (simp add: eval_defs row_defs)

subsection \<open>What the endpoint sends\<close>

text \<open>
  Every balance in a reply of the trial-balance endpoint is a number read from JSON: it was
  produced by \<^verbatim>\<open>parseFloat\<close> and has been through JSON.
\<close>

lemma round_double_kind: "round_double x \<noteq> NaN \<and> round_double x \<noteq> Null"
  by (simp add: round_double_def Let_def)

lemma grid_value_round: "grid_value (round_double x)"
proof (cases "round_double x")
  case (Num r)
  with round_double_on_grid [of x r] show ?thesis
    by simp
qed (use round_double_kind [of x] in simp_all)

lemma json_round_wire: "wire_number (json_num (round_double x))"
  using grid_value_round [of x] by (cases "round_double x") simp_all

lemma parseFloat_wire: "wire_number (json_num (parseFloat s))"
  by (simp add: parseFloat_def Let_def json_round_wire split: prod.splits)

lemma row_amount_wire: "wire_number (json_num (row_amount r))"
  by (simp add: row_amount_def cell_amount_def parseFloat_wire on_grid_def
      split: option.splits list.splits)

lemma bs_row_wire:
  assumes "\<forall>a\<in>set (all_records (trialBalance st)). wire_number (json_num (acc_balance a))"
  shows "\<forall>a\<in>set (all_records (trialBalance (bs_row title st r))).
     wire_number (json_num (acc_balance a))"
  using assms by (auto simp: bs_row_def Let_def all_records_def row_amount_wire)

lemma pl_row_wire:
  assumes "\<forall>a\<in>set (all_records (trialBalance st)). wire_number (json_num (acc_balance a))"
  shows "\<forall>a\<in>set (all_records (trialBalance (pl_row title st r))).
     wire_number (json_num (acc_balance a))"
  using assms by (auto simp: pl_row_def Let_def all_records_def row_amount_wire)

lemma process_section_wire:
  assumes "\<And>title st r.
      \<forall>a\<in>set (all_records (trialBalance st)). wire_number (json_num (acc_balance a)) \<Longrightarrow>
      \<forall>a\<in>set (all_records (trialBalance (row_step title st r))).
        wire_number (json_num (acc_balance a))"
    and "\<forall>a\<in>set (all_records (trialBalance st)). wire_number (json_num (acc_balance a))"
  shows "\<forall>a\<in>set (all_records (trialBalance (process_section row_step st s))).
     wire_number (json_num (acc_balance a))"
proof (cases "section_guard s")
  case False
  with assms(2) show ?thesis
    by (simp add: process_section_def)
next
  case True
  then obtain title rs where s: "sec_title s = Some title" "sec_rows s = Some rs"
    by (auto simp: section_guard_def split: option.splits)
  have "\<forall>a\<in>set (all_records (trialBalance (foldl (row_step title) st rs))).
      wire_number (json_num (acc_balance a))"
    by (rule foldl_invariant [where P = "\<lambda>st. \<forall>a\<in>set (all_records (trialBalance st)).
        wire_number (json_num (acc_balance a))"]) (use assms in blast)+
  with True s show ?thesis
    by (simp add: process_section_def)
qed

lemma built_balances_wire:
  assumes "buildTrialBalance lc bs pl = Inr b"
  shows "\<forall>a\<in>set (all_records (built_trialBalance b)). wire_number (json_num (acc_balance a))"
proof -
  let ?P = "\<lambda>st. \<forall>a\<in>set (all_records (trialBalance st)). wire_number (json_num (acc_balance a))"
  from buildTrialBalance_Inr [OF assms] obtain rs prs and st :: tb_state where
    st: "st = process_profit_loss (process_balance_sheet init_state (rows_or_empty rs))
                  (rows_or_empty prs)"
    and tb: "built_trialBalance b = sort_categories lc (trialBalance st)"
    by blast
  have init: "?P init_state"
    by (simp add: init_state_def all_records_def)
  have bs: "?P (process_balance_sheet init_state (rows_or_empty rs))"
    unfolding process_balance_sheet_def
    by (rule foldl_invariant [where P = ?P, OF init])
      (rule process_section_wire, rule bs_row_wire)
  have "?P st"
    unfolding st process_profit_loss_def
    by (rule foldl_invariant [where P = ?P, OF bs])
      (rule process_section_wire, rule pl_row_wire)
  moreover have "set (all_records (sort_categories lc (trialBalance st))) =
      set (all_records (trialBalance st))"
    by (simp add: all_records_def sort_categories_def set_js_sort)
  ultimately show ?thesis
    unfolding tb by simp
qed

lemma endpoint_balances_wire:
  assumes "trial_balance_endpoint lc tok tenantId reportDate bs pl = Reply200 body"
  shows "\<forall>a\<in>set (period_accounts body). wire_number (acc_balance a)"
proof -
  from assms obtain b :: built where b: "buildTrialBalance lc bs pl = Inr b"
    and body: "body_trialBalance body = json_trialBalance (built_trialBalance b)"
    by (auto simp: trial_balance_endpoint_def split: option.splits sum.splits)
  from built_balances_wire [OF b]
  have "\<forall>a\<in>set (all_records (built_trialBalance b)). wire_number (acc_balance (json_account a))"
    by (simp add: json_account_def)
  then show ?thesis
    by (auto simp: period_accounts_def body json_trialBalance_def all_records_def)
qed

section \<open>Properties of the consolidated trial balance\<close>

lemma foldl_entity_step:
  "foldl (entity_step f d) h conns =
     \<lparr>consolidated_totals = foldl add_entity_totals (consolidated_totals h)
        (entity_totals (successes f d conns)),
      companies = companies h @ map (\<lambda>(c, b). make_companyData c b) (successes f d conns)\<rparr>"
proof (induction conns arbitrary: h)
  case Nil
  show ?case by (simp add: entity_totals_def)
next
  case (Cons c conns)
  show ?case
    unfolding foldl_Cons Cons
    by (simp add: entity_step_def entity_totals_def split: fetched.splits tb_reply.splits)
qed

lemma foldl_add_entity_totals:
  "totalDebits (foldl add_entity_totals t ts) = foldl js_add (totalDebits t) (map totalDebits ts)"
  "totalCredits (foldl add_entity_totals t ts) = foldl js_add (totalCredits t) (map totalCredits ts)"
  "totalAssets (foldl add_entity_totals t ts) = foldl js_add (totalAssets t) (map totalAssets ts)"
  "totalLiabilities (foldl add_entity_totals t ts) = foldl js_add (totalLiabilities t) (map totalLiabilities ts)"
  "totalEquity (foldl add_entity_totals t ts) = foldl js_add (totalEquity t) (map totalEquity ts)"
  "totalRevenue (foldl add_entity_totals t ts) = foldl js_add (totalRevenue t) (map totalRevenue ts)"
  "totalExpenses (foldl add_entity_totals t ts) = foldl js_add (totalExpenses t) (map totalExpenses ts)"
  by (induction ts arbitrary: t; simp add: add_entity_totals_def)+

lemma aggregate_field_fold:
  assumes "field \<in> set aggregate_fields"
  shows "field (foldl add_entity_totals zero_totals ts) = js_sum (map field ts)"
  using assms
  by (auto simp: aggregate_fields_def foldl_add_entity_totals js_sum_def zero_totals_def)

lemma consolidated_parts:
  "ctb_totals (buildConsolidatedTrialBalance now stored d f) =
     foldl add_entity_totals zero_totals (entity_totals (successes f d (connected_entities now stored)))"
  "ctb_companies (buildConsolidatedTrialBalance now stored d f) =
     map (\<lambda>(c, b). make_companyData c b) (successes f d (connected_entities now stored))"
  "allConnected (sum_dataQuality (ctb_summary (buildConsolidatedTrialBalance now stored d f))) =
     (length (successes f d (connected_entities now stored)) = length (connected_entities now stored))"
  "totalCompanies (ctb_summary (buildConsolidatedTrialBalance now stored d f)) =
     length (successes f d (connected_entities now stored))"
  by (simp_all add: buildConsolidatedTrialBalance_def Let_def foldl_entity_step connected_entities_def)

lemma fst_successes: "map fst (successes f d conns) = filter (fetch_ok f d) conns"
  by (induction conns) (auto simp: fetch_ok_def split: fetched.splits tb_reply.splits)

lemma length_successes: "length (successes f d conns) = length (filter (fetch_ok f d) conns)"
  using fst_successes [of f d conns] by (metis length_map)

lemma company_ids:
  "map comp_tenantId (map (\<lambda>(c, b). make_companyData c b) ok) = map conn_tenantId (map fst ok)"
  by (induction ok) (auto simp: make_companyData_def Let_def)

lemma connected_live:
  "connected_entities now (live_rows now stored) = connected_entities now stored"
  by (cases stored)
    (simp_all add: connected_entities_def live_rows_def getAllXeroConnections_def filter_map comp_def)

lemma connected_ids:
  "map conn_tenantId (connected_entities now (Fetched rows)) =
     map tenant_id (filter (\<lambda>row. now < expires_at row) rows)"
  by (simp add: connected_entities_def getAllXeroConnections_def filter_map comp_def)

lemma consolidated_connected:
  "buildConsolidatedTrialBalance now stored d f =
     (let h = foldl (entity_step f d) \<lparr>consolidated_totals = zero_totals, companies = []\<rparr>
                (connected_entities now stored);
          balanceCheck = balance_check (consolidated_totals h)
      in \<lparr>ctb_totals = consolidated_totals h,
          ctb_balanceCheck = balanceCheck,
          ctb_companies = companies h,
          ctb_reportDate = d,
          ctb_summary =
            \<lparr>totalCompanies = length (companies h),
             sum_totalAccounts =
               foldl (\<lambda>sum company. sum + totalAccounts (comp_accountCounts company)) 0 (companies h),
             balancedCompanies =
               length (filter (\<lambda>company. debitsEqualCredits (comp_balanceCheck company)) (companies h)),
             sum_dataQuality =
               \<lparr>allConnected = (length (companies h) = length (connected_entities now stored)),
                allBalanced =
                  list_all (\<lambda>company. debitsEqualCredits (comp_balanceCheck company)) (companies h),
                consolidatedBalanced = debitsEqualCredits balanceCheck\<rparr>\<rparr>\<rparr>)"
  by (simp add: buildConsolidatedTrialBalance_def connected_entities_def Let_def)

lemma entity_steps_cong:
  assumes "\<forall>c\<in>set conns. f (conn_tenantId c) d = f' (conn_tenantId c) d"
  shows "foldl (entity_step f d) h conns = foldl (entity_step f' d) h conns"
  using assms
  by (induction conns arbitrary: h) (simp_all add: entity_step_def)

lemma all_ok_iff:
  "length (filter P xs) = length xs \<longleftrightarrow> list_all P xs"
  by (metis Ball_set filter_id_conv filter_True list_all_iff
      length_filter_less not_less_iff_gr_or_eq)

lemma sample_connected:
  "connected_entities 1000 (Fetched sample_tokens) =
     [sample_connection ''A'' ''Entity A'', sample_connection ''B'' ''Entity B'',
      sample_connection ''C'' ''Entity C'']"
  by (simp add: connected_entities_def getAllXeroConnections_def sample_tokens_def
      sample_connection_def)

lemma sample_successes:
  "map fst (successes sample_fetch ''2024-06-30''
     [sample_connection ''A'' ''Entity A'', sample_connection ''B'' ''Entity B'',
      sample_connection ''C'' ''Entity C'']) =
   [sample_connection ''A'' ''Entity A'', sample_connection ''C'' ''Entity C'']"
  by (simp add: sample_fetch_def sample_connection_def)

lemma sample_assets:
  "map totalAssets (entity_totals (successes sample_fetch ''2024-06-30''
     [sample_connection ''A'' ''Entity A'', sample_connection ''B'' ''Entity B'',
      sample_connection ''C'' ''Entity C''])) = [Num 100000, Num 157000]"
  by (simp add: sample_fetch_def sample_connection_def entity_totals_def sample_body_def
      sample_totals_def)

text \<open>
  Claim C4, as amended. Each aggregate field of the consolidated totals (total debits,
  credits, assets, liabilities, equity, revenue, expenses) is the sum of that field over
  the totals of the successfully fetched entities as \<^verbatim>\<open>+=\<close> accumulates it: starting
  from 0, in the order in which the entities are processed, every addition rounded to the
  nearest double, and a \<^verbatim>\<open>null\<close> field counting as 0.
\<close>

theorem consolidated_totals_are_sums:
  assumes "field \<in> set aggregate_fields"
  shows "field (ctb_totals (buildConsolidatedTrialBalance now stored reportDate fetchTB)) =
       js_sum (map field (entity_totals (successes fetchTB reportDate (connected_entities now stored))))"
  by (simp add: consolidated_parts aggregate_field_fold [OF assms])

theorem consolidated_totals_are_sums_witness:
  "totalAssets (ctb_totals (buildConsolidatedTrialBalance 1000 (Fetched sample_tokens)
      ''2024-06-30'' sample_fetch)) =
     js_sum (map totalAssets (entity_totals (successes sample_fetch ''2024-06-30''
       (connected_entities 1000 (Fetched sample_tokens)))))
   \<and> js_sum (map totalAssets (entity_totals (successes sample_fetch ''2024-06-30''
       (connected_entities 1000 (Fetched sample_tokens))))) = Num 257000"
proof -
  have mem: "totalAssets \<in> set aggregate_fields"
    by (simp add: aggregate_fields_def)
  have "js_sum (map totalAssets (entity_totals (successes sample_fetch ''2024-06-30''
       (connected_entities 1000 (Fetched sample_tokens))))) = Num 257000"
    by (simp only: sample_connected sample_assets) (simp add: js_sum_def eval_defs)
  with consolidated_totals_are_sums [OF mem] show ?thesis
    by (rule conjI)
qed

text \<open>
  The claim as stated asks for the exact sum. With two entities whose total assets are
  the doubles nearest to 0.1 and to 0.2, the consolidated total assets are the double
  0.30000000000000004, which is not the sum of the two.
\<close>

theorem consolidated_totals_counterexample:
  "map totalAssets (entity_totals (successes tenths_fetch ''2024-06-30''
      (connected_entities 1000 (Fetched two_tokens)))) =
     [Num (3602879701896397 / 36028797018963968), Num (3602879701896397 / 18014398509481984)]
   \<and> totalAssets (ctb_totals (buildConsolidatedTrialBalance 1000 (Fetched two_tokens)
      ''2024-06-30'' tenths_fetch)) = Num (1351079888211149 / 4503599627370496)
   \<and> (1351079888211149 / 4503599627370496 :: rat) \<noteq>
       3602879701896397 / 36028797018963968 + 3602879701896397 / 18014398509481984"
  by (simp add: consolidated_parts foldl_add_entity_totals connected_entities_def
      getAllXeroConnections_def two_tokens_def tenths_fetch_def entity_totals_def
      sample_body_def assets_only_def add_entity_totals_def eval_defs)

text \<open>
  Claim C5. When three entities are connected and the trial-balance request fails for
  exactly one of them (it is rejected, or its reply is not \<^verbatim>\<open>ok\<close>), the consolidated
  result still comes back: its companies are exactly the two other entities, in their
  order, \<open>allConnected\<close> is false, and the consolidated totals are summed over those two
  entities only.
\<close>

theorem one_of_three_fails:
  assumes three: "connected_entities now stored = [c1, c2, c3]"
    and one: "length (filter (fetch_ok fetchTB reportDate) [c1, c2, c3]) = 2"
  shows "map comp_tenantId (ctb_companies (buildConsolidatedTrialBalance now stored reportDate fetchTB)) =
           map conn_tenantId (filter (fetch_ok fetchTB reportDate) [c1, c2, c3])
       \<and> length (ctb_companies (buildConsolidatedTrialBalance now stored reportDate fetchTB)) = 2
       \<and> totalCompanies (ctb_summary (buildConsolidatedTrialBalance now stored reportDate fetchTB)) = 2
       \<and> allConnected (sum_dataQuality (ctb_summary
            (buildConsolidatedTrialBalance now stored reportDate fetchTB))) = False
       \<and> map fst (successes fetchTB reportDate [c1, c2, c3]) =
           filter (fetch_ok fetchTB reportDate) [c1, c2, c3]
       \<and> ctb_totals (buildConsolidatedTrialBalance now stored reportDate fetchTB) =
           foldl add_entity_totals zero_totals
             (entity_totals (successes fetchTB reportDate [c1, c2, c3]))"
proof -
  let ?r = "buildConsolidatedTrialBalance now stored reportDate fetchTB"
  let ?ok = "successes fetchTB reportDate [c1, c2, c3]"
  have len: "length ?ok = 2"
    using one by (simp only: length_successes)
  have "map comp_tenantId (ctb_companies ?r) = map conn_tenantId (map fst ?ok)"
    by (simp only: consolidated_parts three company_ids)
  then have ids: "map comp_tenantId (ctb_companies ?r) =
      map conn_tenantId (filter (fetch_ok fetchTB reportDate) [c1, c2, c3])"
    by (simp only: fst_successes)
  have n: "length (ctb_companies ?r) = 2"
    using len by (simp only: consolidated_parts three length_map)
  have t: "totalCompanies (ctb_summary ?r) = 2"
    using len by (simp only: consolidated_parts three)
  have a: "allConnected (sum_dataQuality (ctb_summary ?r)) = False"
    using len by (simp add: consolidated_parts three)
  have s: "ctb_totals ?r = foldl add_entity_totals zero_totals (entity_totals ?ok)"
    by (simp only: consolidated_parts three)
  from ids n t a s fst_successes [of fetchTB reportDate "[c1, c2, c3]"] show ?thesis
    by blast
qed

theorem one_of_three_fails_witness:
  "map comp_tenantId (ctb_companies
     (buildConsolidatedTrialBalance 1000 (Fetched sample_tokens) ''2024-06-30'' sample_fetch)) =
     [''A'', ''C'']
   \<and> allConnected (sum_dataQuality (ctb_summary
       (buildConsolidatedTrialBalance 1000 (Fetched sample_tokens) ''2024-06-30'' sample_fetch))) = False"
proof -
  let ?cs = "[sample_connection ''A'' ''Entity A'', sample_connection ''B'' ''Entity B'',
      sample_connection ''C'' ''Entity C'']"
  have ok: "filter (fetch_ok sample_fetch ''2024-06-30'') ?cs =
      [sample_connection ''A'' ''Entity A'', sample_connection ''C'' ''Entity C'']"
    using sample_successes by (simp only: fst_successes)
  then have two: "length (filter (fetch_ok sample_fetch ''2024-06-30'') ?cs) = 2"
    by simp
  from one_of_three_fails [OF sample_connected two]
  have "map comp_tenantId (ctb_companies
     (buildConsolidatedTrialBalance 1000 (Fetched sample_tokens) ''2024-06-30'' sample_fetch)) =
       map conn_tenantId (filter (fetch_ok sample_fetch ''2024-06-30'') ?cs)"
    and "allConnected (sum_dataQuality (ctb_summary
       (buildConsolidatedTrialBalance 1000 (Fetched sample_tokens) ''2024-06-30'' sample_fetch))) = False"
    by blast+
  then show ?thesis
    unfolding ok by (simp add: sample_connection_def)
qed

text \<open>
  Claim C10. Only the entities whose token has not expired are processed: the result is
  the one obtained from the stored tokens without the expired ones, the connected
  entities are those of the unexpired tokens, every company of the result is a connected
  entity, \<open>allConnected\<close> holds exactly when every connected entity was fetched
  successfully, and the result does not depend on what a request for any other entity
  would return.
\<close>

theorem expired_entities_excluded:
  "buildConsolidatedTrialBalance now stored reportDate fetchTB =
     buildConsolidatedTrialBalance now (live_rows now stored) reportDate fetchTB
   \<and> map conn_tenantId (connected_entities now (Fetched rows)) =
       map tenant_id (filter (\<lambda>row. now < expires_at row) rows)
   \<and> set (map comp_tenantId (ctb_companies
         (buildConsolidatedTrialBalance now stored reportDate fetchTB)))
       \<subseteq> set (map conn_tenantId (connected_entities now stored))
   \<and> (allConnected (sum_dataQuality (ctb_summary
          (buildConsolidatedTrialBalance now stored reportDate fetchTB))) \<longleftrightarrow>
        list_all (fetch_ok fetchTB reportDate) (connected_entities now stored))
   \<and> ((\<forall>c\<in>set (connected_entities now stored).
          fetchTB (conn_tenantId c) reportDate = fetchTB' (conn_tenantId c) reportDate) \<longrightarrow>
        buildConsolidatedTrialBalance now stored reportDate fetchTB =
          buildConsolidatedTrialBalance now stored reportDate fetchTB')"
proof (intro conjI impI)
  show "buildConsolidatedTrialBalance now stored reportDate fetchTB =
     buildConsolidatedTrialBalance now (live_rows now stored) reportDate fetchTB"
    by (simp only: consolidated_connected connected_live)
  show "map conn_tenantId (connected_entities now (Fetched rows)) =
       map tenant_id (filter (\<lambda>row. now < expires_at row) rows)"
    by (rule connected_ids)
  show "set (map comp_tenantId (ctb_companies
         (buildConsolidatedTrialBalance now stored reportDate fetchTB)))
       \<subseteq> set (map conn_tenantId (connected_entities now stored))"
    by (simp only: consolidated_parts company_ids fst_successes) auto
  show "allConnected (sum_dataQuality (ctb_summary
          (buildConsolidatedTrialBalance now stored reportDate fetchTB))) \<longleftrightarrow>
        list_all (fetch_ok fetchTB reportDate) (connected_entities now stored)"
    by (simp only: consolidated_parts length_successes all_ok_iff)
  show "buildConsolidatedTrialBalance now stored reportDate fetchTB =
          buildConsolidatedTrialBalance now stored reportDate fetchTB'"
    if "\<forall>c\<in>set (connected_entities now stored).
          fetchTB (conn_tenantId c) reportDate = fetchTB' (conn_tenantId c) reportDate"
    by (simp only: consolidated_connected
        entity_steps_cong [of "connected_entities now stored" fetchTB reportDate fetchTB', OF that])
qed

theorem expired_entities_excluded_witness:
  "buildConsolidatedTrialBalance 1000 (Fetched sample_tokens) ''2024-06-30'' sample_fetch =
     buildConsolidatedTrialBalance 1000 (Fetched sample_tokens) ''2024-06-30''
       (sample_fetch_without ''D'')
   \<and> map conn_tenantId (connected_entities 1000 (Fetched sample_tokens)) = [''A'', ''B'', ''C'']"
proof -
  have agree: "\<forall>c\<in>set (connected_entities 1000 (Fetched sample_tokens)).
      sample_fetch (conn_tenantId c) ''2024-06-30'' =
      sample_fetch_without ''D'' (conn_tenantId c) ''2024-06-30''"
    unfolding sample_connected by (simp add: sample_connection_def sample_fetch_without_def)
  from expired_entities_excluded [of 1000 "Fetched sample_tokens" "''2024-06-30''" sample_fetch
      sample_tokens "sample_fetch_without ''D''"]
  have "(\<forall>c\<in>set (connected_entities 1000 (Fetched sample_tokens)).
      sample_fetch (conn_tenantId c) ''2024-06-30'' =
      sample_fetch_without ''D'' (conn_tenantId c) ''2024-06-30'') \<longrightarrow>
    buildConsolidatedTrialBalance 1000 (Fetched sample_tokens) ''2024-06-30'' sample_fetch =
     buildConsolidatedTrialBalance 1000 (Fetched sample_tokens) ''2024-06-30''
       (sample_fetch_without ''D'')"
    by (elim conjE)
  with agree have "buildConsolidatedTrialBalance 1000 (Fetched sample_tokens) ''2024-06-30'' sample_fetch =
     buildConsolidatedTrialBalance 1000 (Fetched sample_tokens) ''2024-06-30''
       (sample_fetch_without ''D'')"
    by (rule rev_mp)
  moreover have "map conn_tenantId (connected_entities 1000 (Fetched sample_tokens)) = [''A'', ''B'', ''C'']"
    unfolding sample_connected by (simp add: sample_connection_def)
  ultimately show ?thesis
    by (rule conjI)
qed

section \<open>Properties of the period comparison\<close>












subsection \<open>The order of the account changes\<close>


















text \<open>
  Claim C9. The reply of the comparison does not depend on the \<open>accountFilter\<close> parameter
  of the query: two requests that differ only there get the same reply.
\<close>

theorem account_filter_ignored:
  "comparePeriods tok tenantId (query\<lparr>q_accountFilter := filter1\<rparr>) today fetchTB =
   comparePeriods tok tenantId (query\<lparr>q_accountFilter := filter2\<rparr>) today fetchTB"
  by (cases tok) (simp_all add: comparePeriods_def Let_def)

theorem account_filter_ignored_witness:
  "comparePeriods (Some sample_token) ''C'' (sample_query\<lparr>q_accountFilter := None\<rparr>)
     ''2024-07-01'' sample_fetch =
   comparePeriods (Some sample_token) ''C'' (sample_query\<lparr>q_accountFilter := Some ''Cash''\<rparr>)
     ''2024-07-01'' sample_fetch"
  by (rule account_filter_ignored)

end
